theory Spec2Isabelle
  imports Complex_Main "HOL-Library.Multiset"
begin

section \<open>JavaScript containers and library functions used by the route\<close>

text \<open>
  The file \<^verbatim>\<open>src/app/api/tools/solana-address-analysis/route.ts\<close> holds two versions of
  the route. The later one (with the result cache, the token table and volume ranking) keeps
  the source's names here; the earlier one (richer response, no cache) carries the suffix
  \<open>_v1\<close>.

  A JavaScript \<^verbatim>\<open>Map\<close> iterates in insertion order, \<^verbatim>\<open>set\<close> on a present key
  replaces the value in place, and \<^verbatim>\<open>delete\<close> removes the key. It is modelled as an
  association list in insertion order.
\<close>

type_synonym ('k, 'v) jsmap = "('k \<times> 'v) list"

definition map_get :: "('k, 'v) jsmap \<Rightarrow> 'k \<Rightarrow> 'v option" where
  "map_get m k = map_of m k"

fun map_set :: "('k, 'v) jsmap \<Rightarrow> 'k \<Rightarrow> 'v \<Rightarrow> ('k, 'v) jsmap" where
  "map_set [] k v = [(k, v)]"
| "map_set ((k', v') # m) k v =
     (if k' = k then (k, v) # m else (k', v') # map_set m k v)"

definition map_delete :: "('k, 'v) jsmap \<Rightarrow> 'k \<Rightarrow> ('k, 'v) jsmap" where
  "map_delete m k = filter (\<lambda>kv. fst kv \<noteq> k) m"

definition map_has :: "('k, 'v) jsmap \<Rightarrow> 'k \<Rightarrow> bool" where
  "map_has m k = (map_get m k \<noteq> None)"

text \<open>
  \<^verbatim>\<open>new Set([...xs])\<close> keeps the first occurrence of every element, in order.
\<close>

definition set_of_array :: "'a list \<Rightarrow> 'a list" where
  "set_of_array xs = rev (remdups (rev xs))"

text \<open>
  \<^verbatim>\<open>Array.prototype.sort(cmp)\<close> is a stable sort: \<open>a\<close> stays before \<open>b\<close> unless the
  comparator is positive on \<open>(a, b)\<close>. Stable insertion sort computes the same array.
\<close>

fun insert_by :: "('a \<Rightarrow> 'a \<Rightarrow> 'b::{zero, linorder}) \<Rightarrow> 'a \<Rightarrow> 'a list \<Rightarrow> 'a list" where
  "insert_by cmp a [] = [a]"
| "insert_by cmp a (b # bs) =
     (if cmp a b \<le> 0 then a # b # bs else b # insert_by cmp a bs)"

definition array_sort :: "('a \<Rightarrow> 'a \<Rightarrow> 'b::{zero, linorder}) \<Rightarrow> 'a list \<Rightarrow> 'a list" where
  "array_sort cmp xs = foldr (insert_by cmp) xs []"

text \<open>\<^verbatim>\<open>String.prototype.includes\<close> and \<^verbatim>\<open>String.prototype.split\<close> on a one-character separator.\<close>

fun starts_with :: "string \<Rightarrow> string \<Rightarrow> bool" where
  "starts_with s [] = True"
| "starts_with [] (p # ps) = False"
| "starts_with (c # cs) (p # ps) = (c = p \<and> starts_with cs ps)"

fun str_includes :: "string \<Rightarrow> string \<Rightarrow> bool" where
  "str_includes [] p = (p = [])"
| "str_includes (c # cs) p = (starts_with (c # cs) p \<or> str_includes cs p)"

fun split_on :: "char \<Rightarrow> string \<Rightarrow> string list" where
  "split_on sep [] = [[]]"
| "split_on sep (c # cs) =
     (if c = sep then [] # split_on sep cs
      else (case split_on sep cs of
              [] \<Rightarrow> [[c]]
            | part # parts \<Rightarrow> (c # part) # parts))"

text \<open>
  Numbers. Lamport balances and clock readings are integers; volumes are JavaScript numbers,
  taken here as exact reals (rounding of binary floating point is outside the model).

  \<^verbatim>\<open>Number.prototype.toFixed(d)\<close>: the integer \<open>n\<close> for which \<open>n / 10^d\<close> is closest to
  the value (the larger one on a tie), printed with \<open>d\<close> digits after the point, and a
  leading minus sign for a negative value. Values from \<open>10^21\<close> on are printed by
  JavaScript in exponent notation, which is not modelled: the theorems on formatting assume
  a value below \<open>10^21\<close>.
\<close>

definition digit_char :: "nat \<Rightarrow> char" where
  "digit_char n = ''0123456789'' ! (n mod 10)"

fun show_nat :: "nat \<Rightarrow> string" where
  "show_nat n = (if n < 10 then [digit_char n] else show_nat (n div 10) @ [digit_char n])"

declare show_nat.simps [simp del]

definition pad_zeros :: "nat \<Rightarrow> string \<Rightarrow> string" where
  "pad_zeros d s = replicate (d - length s) (CHR ''0'') @ s"

definition toFixed_nonneg :: "real \<Rightarrow> nat \<Rightarrow> string" where
  "toFixed_nonneg x d =
     (let n = nat \<lfloor>x * 10 ^ d + 1 / 2\<rfloor> in
      if d = 0 then show_nat n
      else show_nat (n div 10 ^ d) @ ''.'' @ pad_zeros d (show_nat (n mod 10 ^ d)))"

definition toFixed :: "real \<Rightarrow> nat \<Rightarrow> string" where
  "toFixed x d = (if x < 0 then ''-'' @ toFixed_nonneg (- x) d else toFixed_nonneg x d)"

text \<open>The number of digits a rendered number shows after its decimal point.\<close>

definition fraction_digits :: "string \<Rightarrow> nat" where
  "fraction_digits s = length (drop 1 (dropWhile (\<lambda>c. c \<noteq> CHR ''.'') s))"


section \<open>The cached route: response, token table, formatter\<close>

record RelatedAccount =
  ra_address :: string
  totalSolVolume :: string

record SolanaAnalysisResponse =
  address :: string
  isValid :: bool
  relatedAccounts :: "RelatedAccount list"
  error :: "string option"

record CacheEntry =
  data :: SolanaAnalysisResponse
  timestamp :: int
  ttl :: int

definition CACHE_TTL :: int where
  "CACHE_TTL = 5 * 60 * 1000"

definition MAX_CACHE_SIZE :: nat where
  "MAX_CACHE_SIZE = 1000"

definition FALLBACK_RPCS :: "string list" where
  "FALLBACK_RPCS =
     [''https://rpc.ankr.com/solana'',
      ''https://api.mainnet-beta.solana.com'',
      ''https://solana-api.projectserum.com'']"

text \<open>
  The rate table is an object literal read by \<^verbatim>\<open>TOKEN_TO_SOL_RATES[mint]\<close>. The list below
  holds its own keys; a name that is not among them is looked up in \<^verbatim>\<open>Object.prototype\<close>.
\<close>

definition TOKEN_TO_SOL_RATES :: "(string \<times> real) list" where
  "TOKEN_TO_SOL_RATES =
     [(''EPjFWdd5AufqSSqeM2qN1xzybapC8G4wEGGkZwyTDt1v'', 0.004),
      (''Es9vMFrzaCERmJfrF4H2FYD4KCoNkY11McCe8BenwNYB'', 0.004),
      (''So11111111111111111111111111111111111111112'', 1.0),
      (''mSoLzYCxHdYgdzU16g5QSh3i5K3z3KZK7ytfqcJm7So'', 1.0),
      (''bSo13r4TkiE4KumL71LsHTPpL2euBYLFx6h9HP3piy1'', 1.0),
      (''JUP4Fb2cqiRUcaTHdrPC8h2gNsA2ETXiPDD33WcGuJB'', 0.0035),
      (''7vfCXTUXx5WJV5JADk17DUJ4ksgau7utNKj4b963voxs'', 0.15),
      (''DezXAZ8z7PnrnRJjz3wXBoRgixCa6xjnB7YaB1pPB263'', 0.00000006),
      (''WENWENvqqNya429ubCdR81ZmD69brwQaaBYY6p3LCpk'', 0.000001),
      (''hntyVP6YFm1Hg25TN9WGLqM12b8TQmcknKrdu1oxWux'', 0.000003),
      (''MEW1gQWJ3nEXg2qgERiKu7FAFj79PHvQVREQUzScPP5'', 0.0001),
      (''MangoCzJ36AjZyKwVj3VnYU4GTonjfVEnJmvvWaxLac'', 0.0001),
      (''SHDWyBxihqiCj6YekG2GUr7wqKLeLAMK1gHZck9pL6y'', 0.000002),
      (''A9mUU4qviSctJVPJdBJWkb28deg915LYJKrzQ19ji3FM'', 0.000001)]"

definition formatSolAmount :: "real \<Rightarrow> string" where
  "formatSolAmount solValue =
     (if solValue = 0 then ''0 SOL''
      else if solValue < 0.001 then toFixed solValue 6 @ '' SOL''
      else if solValue < 1 then toFixed solValue 3 @ '' SOL''
      else if solValue < 1000 then toFixed solValue 2 @ '' SOL''
      else toFixed solValue 0 @ '' SOL'')"

text \<open>
  The values the lookup and the product can have: a number, \<^verbatim>\<open>NaN\<close>, or a function or
  object. The names that every object literal inherits from \<^verbatim>\<open>Object.prototype\<close> hold
  functions, and \<^verbatim>\<open>__proto__\<close> holds the prototype object itself.
\<close>

datatype js_value = Num real | NaN | Obj

definition Object_prototype_keys :: "string list" where
  "Object_prototype_keys =
     [''constructor'', ''__defineGetter__'', ''__defineSetter__'', ''hasOwnProperty'',
      ''__lookupGetter__'', ''__lookupSetter__'', ''isPrototypeOf'', ''propertyIsEnumerable'',
      ''toString'', ''valueOf'', ''__proto__'', ''toLocaleString'']"

text \<open>\<^verbatim>\<open>TOKEN_TO_SOL_RATES[mint]\<close>; \<open>None\<close> is \<^verbatim>\<open>undefined\<close>.\<close>

definition rate_property :: "string \<Rightarrow> js_value option" where
  "rate_property mint =
     (case map_of TOKEN_TO_SOL_RATES mint of
        Some r \<Rightarrow> Some (Num r)
      | None \<Rightarrow> if mint \<in> set Object_prototype_keys then Some Obj else None)"

text \<open>
  \<^verbatim>\<open>TOKEN_TO_SOL_RATES[mint] || 0\<close>: \<^verbatim>\<open>undefined\<close>, 0 and \<^verbatim>\<open>NaN\<close> give 0; a function or
  object is truthy and is kept.
\<close>

definition solRate :: "string \<Rightarrow> js_value" where
  "solRate mint =
     (case rate_property mint of
        None \<Rightarrow> Num 0
      | Some (Num r) \<Rightarrow> if r = 0 then Num 0 else Num r
      | Some NaN \<Rightarrow> Num 0
      | Some Obj \<Rightarrow> Obj)"

text \<open>A number times a value: a function or object converts to \<^verbatim>\<open>NaN\<close>.\<close>

definition js_times :: "real \<Rightarrow> js_value \<Rightarrow> js_value" where
  "js_times x v = (case v of Num r \<Rightarrow> Num (x * r) | NaN \<Rightarrow> NaN | Obj \<Rightarrow> NaN)"

definition getTokenValueInSol :: "string \<Rightarrow> real \<Rightarrow> nat \<Rightarrow> js_value" where
  "getTokenValueInSol mint tokenAmount decimals =
     (let actualAmount = tokenAmount / 10 ^ decimals in js_times actualAmount (solRate mint))"


section \<open>The result cache\<close>

text \<open>
  \<open>analysisCache\<close> is a module-level \<^verbatim>\<open>Map\<close>; every function takes it and returns it.
  \<^verbatim>\<open>Date.now()\<close> is an argument: \<open>setCachedAnalysis\<close> reads the clock itself and
  \<open>cleanupCache\<close> reads it again.
\<close>

type_synonym cache = "(string, CacheEntry) jsmap"

definition getCacheKey :: "string \<Rightarrow> string" where
  "getCacheKey a = ''analysis:'' @ a"

definition getCachedAnalysis :: "cache \<Rightarrow> string \<Rightarrow> int \<Rightarrow> SolanaAnalysisResponse option \<times> cache" where
  "getCachedAnalysis analysisCache a now =
     (let key = getCacheKey a in
      case map_get analysisCache key of
        None \<Rightarrow> (None, analysisCache)
      | Some entry \<Rightarrow>
          (let isExpired = (now - timestamp entry > ttl entry) in
           if isExpired then (None, map_delete analysisCache key)
           else (Some (data entry), analysisCache)))"

definition cleanupCache :: "cache \<Rightarrow> int \<Rightarrow> cache" where
  "cleanupCache analysisCache now =
     (let keysToDelete =
            map fst (filter (\<lambda>(key, entry). now - timestamp entry > ttl entry) analysisCache);
          c1 = foldl map_delete analysisCache keysToDelete
      in if length c1 > MAX_CACHE_SIZE then
           (let entries = array_sort (\<lambda>a b. timestamp (snd a) - timestamp (snd b)) c1;
                entriesToRemove = take (length c1 - MAX_CACHE_SIZE) entries
            in foldl map_delete c1 (map fst entriesToRemove))
         else c1)"

definition setCachedAnalysis :: "cache \<Rightarrow> string \<Rightarrow> SolanaAnalysisResponse \<Rightarrow> int \<Rightarrow> int \<Rightarrow> cache" where
  "setCachedAnalysis analysisCache a d now now_cleanup =
     (let key = getCacheKey a;
          c1 = cleanupCache analysisCache now_cleanup
      in map_set c1 key \<lparr>data = d, timestamp = now, ttl = CACHE_TTL\<rparr>)"


section \<open>Ledger records and the provider\<close>

text \<open>
  What the RPC client returns, with the fields the route reads. A token balance's raw
  \<open>amount\<close> is a string of decimal digits in the source; the record holds the number
  \<^verbatim>\<open>parseFloat\<close> reads from it. \<open>accountKeys\<close> holds each key's \<^verbatim>\<open>pubkey.toString()\<close>.
\<close>

record sigInfo =
  signature :: string
  blockTime :: "int option"

record uiTokenAmount =
  amount :: nat
  decimals :: nat
  uiAmount :: "real option"

record tokenBalance =
  owner :: "string option"
  mint :: string
  uiTokenAmount :: uiTokenAmount

record txMeta =
  preBalances :: "int list"
  postBalances :: "int list"
  preTokenBalances :: "tokenBalance list option"
  postTokenBalances :: "tokenBalance list option"

record parsedTx =
  meta :: "txMeta option"
  accountKeys :: "string list option"

text \<open>
  A thrown value is an \<^verbatim>\<open>Error\<close> with its message, or something else. A provider call
  returns its value or throws. \<open>newConnection\<close> is \<^verbatim>\<open>new Connection(url, 'confirmed')\<close>.
  The three clock fields are the readings of \<^verbatim>\<open>Date.now()\<close> during one run: in the cache
  lookup, when the result is stored, and inside \<open>cleanupCache\<close>.
\<close>

datatype thrown = Error string | NonError

record connection =
  getBalance :: "string \<Rightarrow> thrown + int"
  getSignaturesForAddress :: "string \<Rightarrow> nat \<Rightarrow> thrown + sigInfo list"
  getParsedTransaction :: "string \<Rightarrow> thrown + parsedTx option"
  getParsedTransactions :: "string list \<Rightarrow> thrown + parsedTx option list"

record env =
  isValidSolanaAddress :: "string \<Rightarrow> bool"
  HELIUS_RPC_URL :: "string option"
  newConnection :: "string \<Rightarrow> thrown + connection"
  now_lookup :: int
  now_store :: int
  now_cleanup :: int

text \<open>The requests a run sends to the provider, in order.\<close>

datatype rpc_call =
  GetBalance string
| GetSignaturesForAddress string nat
| GetParsedTransaction string
| GetParsedTransactions "string list"

definition rpcUrl_of :: "env \<Rightarrow> string" where
  "rpcUrl_of e =
     (case HELIUS_RPC_URL e of
        Some u \<Rightarrow> if u \<noteq> [] then u else FALLBACK_RPCS ! 0
      | None \<Rightarrow> FALLBACK_RPCS ! 0)"


section \<open>The cached route: aggregation\<close>

text \<open>The two maps of one run: volume in SOL and number of interactions per account.\<close>

record tally =
  accountVolumes :: "(string, real) jsmap"
  accountInteractions :: "(string, nat) jsmap"

definition skipAccount :: "string \<Rightarrow> string \<Rightarrow> bool" where
  "skipAccount a accountAddress =
     (accountAddress = a \<or>
      accountAddress = ''11111111111111111111111111111111'' \<or>
      accountAddress = ''TokenkegQfeZyiNwAJbNbGKPFXCWuBvf9Ss623VQ5DA'' \<or>
      accountAddress = ''ComputeBudget111111111111111111111111111111'' \<or>
      accountAddress = ''SysvarRent111111111111111111111111111111111'' \<or>
      accountAddress = ''SysvarClock111111111111111111111111111111111'')"

definition get_or_0 :: "(string, 'v::zero) jsmap \<Rightarrow> string \<Rightarrow> 'v" where
  "get_or_0 m k = (case map_get m k of None \<Rightarrow> 0 | Some v \<Rightarrow> v)"

text \<open>The body of the loop over \<open>k\<close> (native balances), for the key at position \<open>k\<close>.\<close>

definition nativeStep :: "string \<Rightarrow> txMeta \<Rightarrow> string list \<Rightarrow> tally \<Rightarrow> nat \<Rightarrow> tally" where
  "nativeStep a m keys st k =
     (let accountAddress = keys ! k in
      if skipAccount a accountAddress then st
      else
        let currentInteractions = get_or_0 (accountInteractions st) accountAddress;
            st1 = st\<lparr>accountInteractions :=
                       map_set (accountInteractions st) accountAddress (currentInteractions + 1)\<rparr>
        in if k < length (preBalances m) \<and> k < length (postBalances m) then
             (let preBalance = preBalances m ! k;
                  postBalance = postBalances m ! k;
                  balanceChange = \<bar>postBalance - preBalance\<bar>
              in if balanceChange > 0 then
                   (let currentVolume = get_or_0 (accountVolumes st1) accountAddress;
                        solValue = real_of_int balanceChange / 10 ^ 9
                    in st1\<lparr>accountVolumes :=
                              map_set (accountVolumes st1) accountAddress (currentVolume + solValue)\<rparr>)
                 else st1)
           else st1)"

definition nativePass :: "string \<Rightarrow> txMeta \<Rightarrow> string list \<Rightarrow> tally \<Rightarrow> tally" where
  "nativePass a m keys st = foldl (nativeStep a m keys) st [0..<length keys]"

definition tokenMap :: "tokenBalance list \<Rightarrow> (string, tokenBalance) jsmap" where
  "tokenMap bs =
     foldl (\<lambda>tm balance.
              case owner balance of
                None \<Rightarrow> tm
              | Some ow \<Rightarrow>
                  if ow \<noteq> [] \<and> mint balance \<noteq> []
                  then map_set tm (ow @ ''-'' @ mint balance) balance
                  else tm)
       [] bs"

text \<open>
  The body of the loop over \<open>allTokenKeys\<close>. Every key holds a \<open>-\<close>, so the split has at
  least two parts; the last case of the split is never reached.
\<close>

definition tokenStep ::
  "string \<Rightarrow> (string, tokenBalance) jsmap \<Rightarrow> (string, tokenBalance) jsmap \<Rightarrow> tally \<Rightarrow> string \<Rightarrow> tally" where
  "tokenStep a preTokenMap postTokenMap st tokenKey =
     (case split_on (CHR ''-'') tokenKey of
        ow # mi # rest \<Rightarrow>
          if ow = a then st
          else
            let preBalance = map_get preTokenMap tokenKey;
                postBalance = map_get postTokenMap tokenKey;
                preNum = (case preBalance of None \<Rightarrow> 0 | Some b \<Rightarrow> real (amount (uiTokenAmount b)));
                postNum = (case postBalance of None \<Rightarrow> 0 | Some b \<Rightarrow> real (amount (uiTokenAmount b)));
                preDecimals = (case preBalance of None \<Rightarrow> 0 | Some b \<Rightarrow> decimals (uiTokenAmount b));
                postDecimals = (case postBalance of None \<Rightarrow> 0 | Some b \<Rightarrow> decimals (uiTokenAmount b));
                decs = (if preDecimals \<noteq> 0 then preDecimals
                        else if postDecimals \<noteq> 0 then postDecimals else 6);
                tokenChange = \<bar>postNum - preNum\<bar>
            in if tokenChange > 0 then
                 (let currentInteractions = get_or_0 (accountInteractions st) ow;
                      st1 = st\<lparr>accountInteractions :=
                                 map_set (accountInteractions st) ow (currentInteractions + 1)\<rparr>;
                      tokenValueInSol = getTokenValueInSol mi tokenChange decs
                  in case tokenValueInSol of
                       Num v \<Rightarrow>
                         if v > 0 then
                           (let currentVolume = get_or_0 (accountVolumes st1) ow
                            in st1\<lparr>accountVolumes :=
                                      map_set (accountVolumes st1) ow (currentVolume + v)\<rparr>)
                         else st1
                     | _ \<Rightarrow> st1)
               else st
      | _ \<Rightarrow> st)"

definition tokenPass :: "string \<Rightarrow> tokenBalance list \<Rightarrow> tokenBalance list \<Rightarrow> tally \<Rightarrow> tally" where
  "tokenPass a pre post st =
     (let preTokenMap = tokenMap pre;
          postTokenMap = tokenMap post;
          allTokenKeys = set_of_array (map fst preTokenMap @ map fst postTokenMap)
      in foldl (tokenStep a preTokenMap postTokenMap) st allTokenKeys)"

text \<open>The body of the loop over the transactions of a batch.\<close>

definition processTx :: "string \<Rightarrow> tally \<Rightarrow> parsedTx option \<Rightarrow> tally" where
  "processTx a st tx =
     (case tx of
        None \<Rightarrow> st
      | Some t \<Rightarrow>
          (case meta t of
             None \<Rightarrow> st
           | Some m \<Rightarrow>
               (case accountKeys t of
                  None \<Rightarrow> st
                | Some keys \<Rightarrow>
                    (let st1 = nativePass a m keys st in
                     case preTokenBalances m of
                       None \<Rightarrow> st1
                     | Some pre \<Rightarrow>
                         (case postTokenBalances m of
                            None \<Rightarrow> st1
                          | Some post \<Rightarrow> tokenPass a pre post st1)))))"

text \<open>
  Fetching one batch: one request per signature on Helius (a failed request gives
  \<^verbatim>\<open>null\<close>), one batch request otherwise (a failure throws out of the batch).
\<close>

definition fetchBatch ::
  "connection \<Rightarrow> bool \<Rightarrow> string list \<Rightarrow> (thrown + parsedTx option list) \<times> rpc_call list" where
  "fetchBatch conn isHelius txSignatures =
     (if isHelius then
        (Inr (map (\<lambda>txSig. case getParsedTransaction conn txSig of
                              Inl err \<Rightarrow> None
                            | Inr tx \<Rightarrow> tx) txSignatures),
         map GetParsedTransaction txSignatures)
      else (getParsedTransactions conn txSignatures, [GetParsedTransactions txSignatures]))"

text \<open>
  The loop over batches, from index \<open>i\<close>. A batch whose fetch throws is skipped; the
  waiting between batches has no effect on the result.
\<close>

function batchLoop ::
  "connection \<Rightarrow> bool \<Rightarrow> string \<Rightarrow> sigInfo list \<Rightarrow> nat \<Rightarrow> nat \<Rightarrow> tally \<times> rpc_call list
     \<Rightarrow> tally \<times> rpc_call list" where
  "batchLoop conn isHelius a signatures maxTransactions i acc =
     (let batchSize = (if isHelius then 3 else 5 :: nat) in
      if i < maxTransactions then
        (let batch = take batchSize (drop i signatures);
             txSignatures = map signature batch;
             fetched = fetchBatch conn isHelius txSignatures;
             st' = (case fst fetched of
                      Inl err \<Rightarrow> fst acc
                    | Inr transactions \<Rightarrow> foldl (processTx a) (fst acc) transactions)
         in batchLoop conn isHelius a signatures maxTransactions (i + batchSize)
              (st', snd acc @ snd fetched))
      else acc)"
  by pat_completeness auto
termination
  by (relation "measure (\<lambda>(conn, isHelius, a, signatures, maxTransactions, i, acc). maxTransactions - i)")
    (auto split: if_splits)

declare batchLoop.simps [simp del]


section \<open>The cached route: ranking and the entry point\<close>

record rankedAccount =
  rk_address :: string
  rk_totalSolVolume :: string
  volumeValue :: real
  interactions :: nat

definition byVolume :: "rankedAccount \<Rightarrow> rankedAccount \<Rightarrow> real" where
  "byVolume x y =
     (if volumeValue y \<noteq> volumeValue x then volumeValue y - volumeValue x
      else real (interactions y) - real (interactions x))"

definition rankAccounts :: "tally \<Rightarrow> rankedAccount list" where
  "rankAccounts st =
     (let allAccounts =
            set_of_array (map fst (accountInteractions st) @ map fst (accountVolumes st))
      in array_sort byVolume
           (map (\<lambda>accountAddress.
                   let volumeInSol = get_or_0 (accountVolumes st) accountAddress;
                       n = get_or_0 (accountInteractions st) accountAddress
                   in \<lparr>rk_address = accountAddress,
                       rk_totalSolVolume = formatSolAmount volumeInSol,
                       volumeValue = volumeInSol,
                       interactions = n\<rparr>)
              allAccounts))"

definition stripRanked :: "rankedAccount \<Rightarrow> RelatedAccount" where
  "stripRanked r = \<lparr>ra_address = rk_address r, totalSolVolume = rk_totalSolVolume r\<rparr>"

definition errorMessage :: "thrown \<Rightarrow> string" where
  "errorMessage err = (case err of Error msg \<Rightarrow> msg | NonError \<Rightarrow> ''Unknown error'')"

text \<open>
  What the \<^verbatim>\<open>try\<close> block of \<open>analyzeAddress\<close> computes before anything is stored: it
  throws, or it has the list of signatures and, when that is not empty, the two maps.
\<close>

definition aggregate ::
  "env \<Rightarrow> string \<Rightarrow> (thrown + sigInfo list \<times> tally) \<times> rpc_call list" where
  "aggregate e a =
     (let rpcUrl = rpcUrl_of e in
      case newConnection e rpcUrl of
        Inl err \<Rightarrow> (Inl err, [])
      | Inr conn \<Rightarrow>
          (case getSignaturesForAddress conn a 50 of
             Inl err \<Rightarrow> (Inl err, [GetSignaturesForAddress a 50])
           | Inr signatures \<Rightarrow>
               if length signatures = 0
               then (Inr (signatures, \<lparr>accountVolumes = [], accountInteractions = []\<rparr>),
                     [GetSignaturesForAddress a 50])
               else
                 (let isHelius = str_includes rpcUrl ''helius'';
                      maxTransactions = min (length signatures) (if isHelius then 15 else 25);
                      done = batchLoop conn isHelius a signatures maxTransactions 0
                               (\<lparr>accountVolumes = [], accountInteractions = []\<rparr>,
                                [GetSignaturesForAddress a 50])
                  in (Inr (signatures, fst done), snd done))))"

definition analyzeAddress ::
  "env \<Rightarrow> cache \<Rightarrow> string \<Rightarrow> SolanaAnalysisResponse \<times> cache \<times> rpc_call list" where
  "analyzeAddress e analysisCache a =
     (if \<not> isValidSolanaAddress e a then
        (\<lparr>address = a, isValid = False, relatedAccounts = [],
          error = Some ''Invalid Solana address format''\<rparr>, analysisCache, [])
      else
        case getCachedAnalysis analysisCache a (now_lookup e) of
          (Some cachedResult, c1) \<Rightarrow> (cachedResult, c1, [])
        | (None, c1) \<Rightarrow>
            (case aggregate e a of
               (Inl err, calls) \<Rightarrow>
                 (let errorResult =
                        \<lparr>address = a, isValid = True, relatedAccounts = [],
                         error = Some (''Failed to analyze address: '' @ errorMessage err)\<rparr>;
                      shortCacheTime = 60 * 1000;
                      key = getCacheKey a
                  in (errorResult,
                      map_set c1 key
                        \<lparr>data = errorResult, timestamp = now_store e, ttl = shortCacheTime\<rparr>,
                      calls))
             | (Inr (signatures, st), calls) \<Rightarrow>
                 if length signatures = 0 then
                   (\<lparr>address = a, isValid = True, relatedAccounts = [], error = None\<rparr>, c1, calls)
                 else
                   (let result =
                          \<lparr>address = a, isValid = True,
                           relatedAccounts = map stripRanked (rankAccounts st), error = None\<rparr>
                    in (result,
                        setCachedAnalysis c1 a result (now_store e) (now_cleanup e),
                        calls))))"


section \<open>The earlier route (\<open>_v1\<close>): response and formatter\<close>

text \<open>
  \<open>lastInteraction\<close> is the string \<^verbatim>\<open>'Unknown'\<close> or the ISO-8601 rendering of the block
  time; the source compares two such strings with \<^verbatim>\<open>>\<close>. For years of four digits that
  is the order of the times, so the model keeps the block time itself.
  \<open>totalSolFlowLamports\<close> is an optional field: the aggregation always sets it and the
  response drops it.
\<close>

datatype lastSeen = Unknown | ISO int

record RelatedAccount_v1 =
  address_v1 :: string
  transactionCount :: nat
  lastInteraction :: lastSeen
  transactionTypes :: "string list"
  totalSolFlowLamports :: "int option"
  totalSolFlow :: "string option"
  totalTokenInteractions :: "nat option"

record debugInfo =
  processedTxs :: nat
  totalAccounts :: nat
  filteredAccounts :: nat
  errors :: "string list"
  balanceChanges :: nat
  tokenChanges :: nat
  rpcUsed :: string
  finalAccountCount :: "nat option"

record SolanaAnalysisResponse_v1 =
  resp_address_v1 :: string
  isValid_v1 :: bool
  totalTransactions :: "nat option"
  sampledTransactions :: "nat option"
  relatedAccounts_v1 :: "RelatedAccount_v1 list option"
  error_v1 :: "string option"
  debug :: "debugInfo option"

definition formatSolAmount_v1 :: "real \<Rightarrow> string" where
  "formatSolAmount_v1 lamports =
     (let sol = lamports / 10 ^ 9 in
      if sol = 0 then ''0 SOL''
      else if sol < 0.000001 then ''<0.000001 SOL''
      else if sol < 0.001 then toFixed sol 6 @ '' SOL''
      else if sol < 1 then toFixed sol 3 @ '' SOL''
      else if sol < 1000 then toFixed sol 2 @ '' SOL''
      else toFixed sol 0 @ '' SOL'')"


section \<open>The earlier route: aggregation\<close>

record run_v1 =
  relatedAccountsMap :: "(string, RelatedAccount_v1) jsmap"
  debugInfo :: debugInfo

definition skipAccount_v1 :: "string \<Rightarrow> string \<Rightarrow> bool" where
  "skipAccount_v1 a accountAddress =
     (accountAddress = a \<or>
      accountAddress = ''11111111111111111111111111111111'' \<or>
      accountAddress = ''TokenkegQfeZyiNwAJbNbGKPFXCWuBvf9Ss623VQ5DA'' \<or>
      accountAddress = ''ComputeBudget111111111111111111111111111111'')"

text \<open>\<^verbatim>\<open>xs[k] || 0\<close>: a position outside the array reads as 0.\<close>

definition nth_or_0 :: "int list \<Rightarrow> nat \<Rightarrow> int" where
  "nth_or_0 xs k = (if k < length xs then xs ! k else 0)"

text \<open>\<^verbatim>\<open>signature.blockTime ? new Date(blockTime * 1000).toISOString() : 'Unknown'\<close>\<close>

definition stampOf :: "sigInfo \<Rightarrow> lastSeen" where
  "stampOf sg = (case blockTime sg of None \<Rightarrow> Unknown | Some t \<Rightarrow> if t \<noteq> 0 then ISO t else Unknown)"

definition freshAccount :: "string \<Rightarrow> sigInfo \<Rightarrow> RelatedAccount_v1" where
  "freshAccount accountAddress sg =
     \<lparr>address_v1 = accountAddress, transactionCount = 0, lastInteraction = stampOf sg,
      transactionTypes = [], totalSolFlowLamports = Some 0, totalSolFlow = Some ''0 SOL'',
      totalTokenInteractions = Some 0\<rparr>"

definition updateLastInteraction :: "sigInfo \<Rightarrow> RelatedAccount_v1 \<Rightarrow> RelatedAccount_v1" where
  "updateLastInteraction sg relatedAccount =
     (case stampOf sg of
        Unknown \<Rightarrow> relatedAccount
      | ISO currentTime \<Rightarrow>
          (case lastInteraction relatedAccount of
             Unknown \<Rightarrow> relatedAccount\<lparr>lastInteraction := ISO currentTime\<rparr>
           | ISO seen \<Rightarrow>
               if currentTime > seen then relatedAccount\<lparr>lastInteraction := ISO currentTime\<rparr>
               else relatedAccount))"

definition addType :: "string \<Rightarrow> RelatedAccount_v1 \<Rightarrow> RelatedAccount_v1" where
  "addType label relatedAccount =
     (if label \<in> set (transactionTypes relatedAccount) then relatedAccount
      else relatedAccount\<lparr>transactionTypes := transactionTypes relatedAccount @ [label]\<rparr>)"

text \<open>
  The body of the loop over \<open>k\<close> (Method 1). The source creates the entry of a new account
  and then updates the object held by the map.
\<close>

definition nativeStep_v1 :: "string \<Rightarrow> txMeta \<Rightarrow> string list \<Rightarrow> sigInfo \<Rightarrow> run_v1 \<Rightarrow> nat \<Rightarrow> run_v1" where
  "nativeStep_v1 a m keys sg st k =
     (let accountAddress = keys ! k; dbg = debugInfo st in
      if skipAccount_v1 a accountAddress
      then st\<lparr>debugInfo := dbg\<lparr>filteredAccounts := filteredAccounts dbg + 1\<rparr>\<rparr>
      else
        let preBalance = nth_or_0 (preBalances m) k;
            postBalance = nth_or_0 (postBalances m) k;
            balanceChange = postBalance - preBalance
        in if balanceChange \<noteq> 0 then
             (let dbg1 = dbg\<lparr>balanceChanges := balanceChanges dbg + 1,
                              totalAccounts := totalAccounts dbg + 1\<rparr>;
                  relatedAccount =
                    (case map_get (relatedAccountsMap st) accountAddress of
                       None \<Rightarrow> freshAccount accountAddress sg
                     | Some r \<Rightarrow> r);
                  r1 = relatedAccount
                         \<lparr>transactionCount := transactionCount relatedAccount + 1,
                          totalSolFlowLamports :=
                            Some ((case totalSolFlowLamports relatedAccount of
                                     None \<Rightarrow> 0 | Some v \<Rightarrow> v) + \<bar>balanceChange\<bar>)\<rparr>;
                  r2 = updateLastInteraction sg r1;
                  r3 = (if balanceChange > 0 then addType ''SOL Inflow'' r2
                        else addType ''SOL Outflow'' r2)
              in st\<lparr>relatedAccountsMap := map_set (relatedAccountsMap st) accountAddress r3,
                     debugInfo := dbg1\<rparr>)
           else st)"

definition nativePass_v1 :: "string \<Rightarrow> txMeta \<Rightarrow> string list \<Rightarrow> sigInfo \<Rightarrow> run_v1 \<Rightarrow> run_v1" where
  "nativePass_v1 a m keys sg st = foldl (nativeStep_v1 a m keys sg) st [0..<length keys]"

text \<open>The body of the loop over \<open>allTokenKeys\<close> (Method 2), on \<^verbatim>\<open>uiAmount || 0\<close>.\<close>

definition uiAmount_or_0 :: "tokenBalance option \<Rightarrow> real" where
  "uiAmount_or_0 balance =
     (case balance of
        None \<Rightarrow> 0
      | Some b \<Rightarrow> (case uiAmount (uiTokenAmount b) of None \<Rightarrow> 0 | Some v \<Rightarrow> v))"

definition tokenStep_v1 ::
  "string \<Rightarrow> (string, tokenBalance) jsmap \<Rightarrow> (string, tokenBalance) jsmap \<Rightarrow> sigInfo \<Rightarrow> run_v1
     \<Rightarrow> string \<Rightarrow> run_v1" where
  "tokenStep_v1 a preTokenMap postTokenMap sg st tokenKey =
     (case split_on (CHR ''-'') tokenKey of
        ow # mi # rest \<Rightarrow>
          if ow = a then st
          else
            let preAmount = uiAmount_or_0 (map_get preTokenMap tokenKey);
                postAmount = uiAmount_or_0 (map_get postTokenMap tokenKey);
                dbg = debugInfo st
            in if preAmount \<noteq> postAmount then
                 (let dbg1 = dbg\<lparr>tokenChanges := tokenChanges dbg + 1,
                                  totalAccounts := totalAccounts dbg + 1\<rparr>;
                      relatedAccount =
                        (case map_get (relatedAccountsMap st) ow of
                           None \<Rightarrow> freshAccount ow sg
                         | Some r \<Rightarrow> r);
                      r1 = relatedAccount
                             \<lparr>transactionCount := transactionCount relatedAccount + 1,
                              totalTokenInteractions :=
                                Some ((case totalTokenInteractions relatedAccount of
                                         None \<Rightarrow> 0 | Some n \<Rightarrow> n) + 1)\<rparr>;
                      r2 = updateLastInteraction sg r1;
                      r3 = addType ''Token Transfer'' r2
                  in st\<lparr>relatedAccountsMap := map_set (relatedAccountsMap st) ow r3,
                         debugInfo := dbg1\<rparr>)
               else st
      | _ \<Rightarrow> st)"

definition tokenPass_v1 :: "string \<Rightarrow> tokenBalance list \<Rightarrow> tokenBalance list \<Rightarrow> sigInfo \<Rightarrow> run_v1 \<Rightarrow> run_v1" where
  "tokenPass_v1 a pre post sg st =
     (let preTokenMap = tokenMap pre;
          postTokenMap = tokenMap post;
          allTokenKeys = set_of_array (map fst preTokenMap @ map fst postTokenMap)
      in foldl (tokenStep_v1 a preTokenMap postTokenMap sg) st allTokenKeys)"

text \<open>
  The loop over the transactions of a batch, from position \<open>j\<close>. The signature of
  transaction \<open>j\<close> is \<^verbatim>\<open>batch[j]\<close>; were the provider to return more transactions than
  were asked for, reading \<^verbatim>\<open>signature.signature\<close> would throw a \<^verbatim>\<open>TypeError\<close> out of the
  batch, after the transaction has been counted.
\<close>

definition undefined_signature_message :: string where
  "undefined_signature_message = ''Cannot read properties of undefined (reading 'signature')''"

fun processTxs_v1 ::
  "string \<Rightarrow> sigInfo list \<Rightarrow> nat \<Rightarrow> parsedTx option list \<Rightarrow> run_v1 \<Rightarrow> run_v1 \<times> thrown option" where
  "processTxs_v1 a batch j [] st = (st, None)"
| "processTxs_v1 a batch j (tx # txs) st =
     (case tx of
        None \<Rightarrow> processTxs_v1 a batch (Suc j) txs st
      | Some t \<Rightarrow>
          (case meta t of
             None \<Rightarrow> processTxs_v1 a batch (Suc j) txs st
           | Some m \<Rightarrow>
               (let dbg = debugInfo st;
                    st1 = st\<lparr>debugInfo := dbg\<lparr>processedTxs := processedTxs dbg + 1\<rparr>\<rparr>
                in if j < length batch then
                     (let sg = batch ! j;
                          st2 = (case accountKeys t of
                                   None \<Rightarrow> st1
                                 | Some keys \<Rightarrow> nativePass_v1 a m keys sg st1);
                          st3 = (case preTokenBalances m of
                                   None \<Rightarrow> st2
                                 | Some pre \<Rightarrow>
                                     (case postTokenBalances m of
                                        None \<Rightarrow> st2
                                      | Some post \<Rightarrow> tokenPass_v1 a pre post sg st2))
                      in processTxs_v1 a batch (Suc j) txs st3)
                   else (st1, Some (Error undefined_signature_message)))))"

definition batchErrorText :: "thrown \<Rightarrow> string" where
  "batchErrorText err =
     (case err of
        Error msg \<Rightarrow> if msg \<noteq> [] then msg else ''Unknown error''
      | NonError \<Rightarrow> ''Unknown error'')"

definition recordBatchError :: "nat \<Rightarrow> thrown \<Rightarrow> run_v1 \<Rightarrow> run_v1" where
  "recordBatchError i err st =
     st\<lparr>debugInfo := (debugInfo st)
          \<lparr>errors := errors (debugInfo st) @ [''Batch '' @ show_nat i @ '': '' @ batchErrorText err]\<rparr>\<rparr>"

function batchLoop_v1 ::
  "connection \<Rightarrow> bool \<Rightarrow> string \<Rightarrow> sigInfo list \<Rightarrow> nat \<Rightarrow> nat \<Rightarrow> run_v1 \<Rightarrow> run_v1" where
  "batchLoop_v1 conn isHelius a signatures processedTransactions i st =
     (let batchSize = (1 :: nat) in
      if i < processedTransactions then
        (let batch = take batchSize (drop i signatures);
             txSignatures = map signature batch;
             fetched =
               (if isHelius \<and> batchSize = 1
                then Inr (map (\<lambda>txSig. case getParsedTransaction conn txSig of
                                          Inl err \<Rightarrow> None
                                        | Inr tx \<Rightarrow> tx) txSignatures)
                else getParsedTransactions conn txSignatures);
             st' = (case fetched of
                      Inl err \<Rightarrow> recordBatchError i err st
                    | Inr transactions \<Rightarrow>
                        (case processTxs_v1 a batch 0 transactions st of
                           (st1, None) \<Rightarrow> st1
                         | (st1, Some err) \<Rightarrow> recordBatchError i err st1))
         in batchLoop_v1 conn isHelius a signatures processedTransactions (i + batchSize) st')
      else st)"
  by pat_completeness auto
termination
  by (relation "measure (\<lambda>(conn, isHelius, a, signatures, processedTransactions, i, st).
                           processedTransactions - i)")
    (auto split: if_splits)

declare batchLoop_v1.simps [simp del]


section \<open>The earlier route: ranking and the entry point\<close>

definition byCount_v1 :: "RelatedAccount_v1 \<Rightarrow> RelatedAccount_v1 \<Rightarrow> int" where
  "byCount_v1 x y =
     (if transactionCount y \<noteq> transactionCount x
      then int (transactionCount y) - int (transactionCount x)
      else (case totalSolFlowLamports y of None \<Rightarrow> 0 | Some v \<Rightarrow> v) -
           (case totalSolFlowLamports x of None \<Rightarrow> 0 | Some v \<Rightarrow> v))"

definition rankAccounts_v1 :: "(string, RelatedAccount_v1) jsmap \<Rightarrow> RelatedAccount_v1 list" where
  "rankAccounts_v1 m = take 25 (array_sort byCount_v1 (map snd m))"

definition cleanAccount :: "RelatedAccount_v1 \<Rightarrow> RelatedAccount_v1" where
  "cleanAccount account =
     account\<lparr>totalSolFlowLamports := None,
             totalSolFlow :=
               Some (formatSolAmount_v1
                       (real_of_int (case totalSolFlowLamports account of None \<Rightarrow> 0 | Some v \<Rightarrow> v)))\<rparr>"

text \<open>
  The connection of a run of the earlier route: the configured one, or the second fallback
  when the balance request on it fails. The URL that goes with it decides the pacing.
\<close>

definition connect_v1 :: "env \<Rightarrow> string \<Rightarrow> thrown + string \<times> connection" where
  "connect_v1 e a =
     (let rpcUrl0 = rpcUrl_of e in
      case newConnection e rpcUrl0 of
        Inl err \<Rightarrow> Inl err
      | Inr conn0 \<Rightarrow>
          (case getBalance conn0 a of
             Inr b \<Rightarrow> Inr (rpcUrl0, conn0)
           | Inl connectionError \<Rightarrow>
               (case newConnection e (FALLBACK_RPCS ! 1) of
                  Inl err \<Rightarrow> Inl err
                | Inr conn1 \<Rightarrow> Inr (FALLBACK_RPCS ! 1, conn1))))"

text \<open>The state after the loop over the batches, started on the empty map.\<close>

definition collect_v1 :: "connection \<Rightarrow> string \<Rightarrow> string \<Rightarrow> sigInfo list \<Rightarrow> run_v1" where
  "collect_v1 conn rpcUrl a signatures =
     (let isHelius = str_includes rpcUrl ''helius'';
          processedTransactions = min (length signatures) (if isHelius then 15 else 8)
      in batchLoop_v1 conn isHelius a signatures processedTransactions 0
           \<lparr>relatedAccountsMap = [],
            debugInfo =
              \<lparr>processedTxs = 0, totalAccounts = 0, filteredAccounts = 0,
               errors = [], balanceChanges = 0, tokenChanges = 0,
               rpcUsed = rpcUrl, finalAccountCount = None\<rparr>\<rparr>)"

text \<open>
  The \<^verbatim>\<open>try\<close> block of \<open>analyzeAddress_v1\<close>; whatever it throws is caught by the function.
\<close>

definition analysis_v1 :: "env \<Rightarrow> string \<Rightarrow> thrown + SolanaAnalysisResponse_v1" where
  "analysis_v1 e a =
     (case connect_v1 e a of
        Inl err \<Rightarrow> Inl err
      | Inr (rpcUrl, conn) \<Rightarrow>
          (case getSignaturesForAddress conn a 50 of
             Inl err \<Rightarrow> Inl err
           | Inr signatures \<Rightarrow>
               (let actualTotalTransactions =
                      (if length signatures = 50 then
                         (case getSignaturesForAddress conn a 1000 of
                            Inl err \<Rightarrow> length signatures
                          | Inr allSignatures \<Rightarrow> length allSignatures)
                       else length signatures)
                in if length signatures = 0 then
                     Inr \<lparr>resp_address_v1 = a, isValid_v1 = True,
                          totalTransactions = Some actualTotalTransactions,
                          sampledTransactions = Some 0,
                          relatedAccounts_v1 = Some [], error_v1 = None, debug = None\<rparr>
                   else
                     (let st = collect_v1 conn rpcUrl a signatures;
                          related = map cleanAccount (rankAccounts_v1 (relatedAccountsMap st));
                          dbg = (debugInfo st)\<lparr>finalAccountCount := Some (length related)\<rparr>
                      in Inr \<lparr>resp_address_v1 = a, isValid_v1 = True,
                              totalTransactions = Some actualTotalTransactions,
                              sampledTransactions = Some (processedTxs dbg),
                              relatedAccounts_v1 = Some related, error_v1 = None,
                              debug = Some dbg\<rparr>))))"

definition analyzeAddress_v1 :: "env \<Rightarrow> string \<Rightarrow> SolanaAnalysisResponse_v1" where
  "analyzeAddress_v1 e a =
     (if \<not> isValidSolanaAddress e a then
        \<lparr>resp_address_v1 = a, isValid_v1 = False, totalTransactions = None,
         sampledTransactions = None, relatedAccounts_v1 = None,
         error_v1 = Some ''Invalid Solana address format'', debug = None\<rparr>
      else
        case analysis_v1 e a of
          Inr response \<Rightarrow> response
        | Inl err \<Rightarrow>
            \<lparr>resp_address_v1 = a, isValid_v1 = True, totalTransactions = None,
             sampledTransactions = None, relatedAccounts_v1 = None,
             error_v1 = Some (''Failed to analyze address: '' @ errorMessage err), debug = None\<rparr>)"


section \<open>Reading the aggregates\<close>

text \<open>
  What the earlier route has recorded for an account: its \<open>transactionCount\<close> and its
  \<open>totalSolFlowLamports\<close>, both 0 for an account that has no entry yet.
\<close>

definition countOf_v1 :: "run_v1 \<Rightarrow> string \<Rightarrow> nat" where
  "countOf_v1 st a =
     (case map_get (relatedAccountsMap st) a of None \<Rightarrow> 0 | Some r \<Rightarrow> transactionCount r)"

definition flowOf_v1 :: "run_v1 \<Rightarrow> string \<Rightarrow> int" where
  "flowOf_v1 st a =
     (case map_get (relatedAccountsMap st) a of
        None \<Rightarrow> 0
      | Some r \<Rightarrow> (case totalSolFlowLamports r of None \<Rightarrow> 0 | Some v \<Rightarrow> v))"


text \<open>
  The positions of a transaction at which the native pass of the earlier route records
  something for account \<open>a\<close>: the key is \<open>a\<close> and the balance moved. For the cached
  route: the positions that hold \<open>a\<close>, and those of them with both balances listed and a
  balance that moved.
\<close>

definition hit_v1 :: "txMeta \<Rightarrow> string list \<Rightarrow> string \<Rightarrow> nat \<Rightarrow> bool" where
  "hit_v1 m keys a k \<longleftrightarrow>
     keys ! k = a \<and> nth_or_0 (postBalances m) k - nth_or_0 (preBalances m) k \<noteq> 0"

definition seen_at :: "string list \<Rightarrow> string \<Rightarrow> nat \<Rightarrow> bool" where
  "seen_at keys a k \<longleftrightarrow> keys ! k = a"

definition moved_at :: "txMeta \<Rightarrow> nat \<Rightarrow> bool" where
  "moved_at m k \<longleftrightarrow>
     k < length (preBalances m) \<and> k < length (postBalances m) \<and>
     postBalances m ! k - preBalances m ! k \<noteq> 0"


section \<open>A sample provider\<close>

text \<open>
  Concrete providers and environments on which the theorems below are run: a connection
  that answers every signature listing with \<open>listing\<close> and every transaction request with
  \<open>txs\<close>, and an environment with one clock reading \<open>t\<close> for the whole run.
\<close>

definition provider :: "(thrown + sigInfo list) \<Rightarrow> parsedTx option list \<Rightarrow> connection" where
  "provider listing txs =
     \<lparr>getBalance = (\<lambda>a. Inr 0),
      getSignaturesForAddress = (\<lambda>a limit. listing),
      getParsedTransaction = (\<lambda>txSig. Inr (case txs of [] \<Rightarrow> None | tx # rest \<Rightarrow> tx)),
      getParsedTransactions = (\<lambda>txSignatures. Inr txs)\<rparr>"

definition run_env :: "bool \<Rightarrow> connection \<Rightarrow> int \<Rightarrow> env" where
  "run_env ok conn t =
     \<lparr>isValidSolanaAddress = (\<lambda>s. ok), HELIUS_RPC_URL = None,
      newConnection = (\<lambda>url. Inr conn), now_lookup = t, now_store = t, now_cleanup = t\<rparr>"

definition transfer_tx :: "string list \<Rightarrow> int list \<Rightarrow> int list \<Rightarrow> parsedTx" where
  "transfer_tx keys pre post =
     \<lparr>meta = Some \<lparr>preBalances = pre, postBalances = post,
                   preTokenBalances = None, postTokenBalances = None\<rparr>,
      accountKeys = Some keys\<rparr>"


section \<open>Properties of the containers\<close>

lemma map_get_map_set_same: "map_get (map_set m k v) k = Some v"
  by (induction m) (auto simp: map_get_def)

lemma map_get_map_set_other: "k' \<noteq> k \<Longrightarrow> map_get (map_set m k v) k' = map_get m k'"
  by (induction m) (auto simp: map_get_def)

lemma map_get_map_delete_same: "map_get (map_delete m k) k = None"
  by (induction m) (auto simp: map_get_def map_delete_def)

lemma map_get_map_delete_other: "k' \<noteq> k \<Longrightarrow> map_get (map_delete m k) k' = map_get m k'"
  by (induction m) (auto simp: map_get_def map_delete_def)

lemma map_delete_absent: "map_get m k = None \<Longrightarrow> map_delete m k = m"
  by (induction m) (auto simp: map_get_def map_delete_def split: if_splits)

lemma map_set_absent: "map_get m k = None \<Longrightarrow> map_set m k v = m @ [(k, v)]"
  by (induction m) (auto simp: map_get_def split: if_splits)

lemma map_get_None_iff: "map_get m k = None \<longleftrightarrow> k \<notin> fst ` set m"
  by (simp add: map_get_def map_of_eq_None_iff)

lemma replicate_numeral: "replicate (numeral k) x = x # replicate (pred_numeral k) x"
  by (simp add: numeral_eq_Suc)

lemma show_nat_small: "n < 10 \<Longrightarrow> show_nat n = [digit_char n]"
  by (simp add: show_nat.simps)

lemma show_nat_large: "\<not> n < 10 \<Longrightarrow> show_nat n = show_nat (n div 10) @ [digit_char n]"
  by (subst show_nat.simps) simp

lemmas render_simps = show_nat_small show_nat_large digit_char_def pad_zeros_def
  toFixed_def toFixed_nonneg_def Let_def replicate_numeral


lemma cleanupCache_fresh:
  assumes "\<forall>kv \<in> set c. \<not> now - timestamp (snd kv) > ttl (snd kv)" "length c \<le> MAX_CACHE_SIZE"
  shows "cleanupCache c now = c"
proof -
  have "filter (\<lambda>(key, entry). now - timestamp entry > ttl entry) c = []"
    using assms(1) by (auto simp: filter_empty_conv)
  then show ?thesis using assms(2) by (simp add: cleanupCache_def Let_def)
qed

lemma getCacheKey_inj: "getCacheKey a = getCacheKey b \<longleftrightarrow> a = b"
  by (simp add: getCacheKey_def)

lemma setCachedAnalysis_fresh_run:
  assumes "distinct as"
    and "length c + length as \<le> Suc MAX_CACHE_SIZE"
    and "\<forall>kv \<in> set c. timestamp (snd kv) = t \<and> ttl (snd kv) = CACHE_TTL"
    and "\<forall>a \<in> set as. getCacheKey a \<notin> fst ` set c"
  shows "foldl (\<lambda>c a. setCachedAnalysis c a (f a) t t) c as =
         c @ map (\<lambda>a. (getCacheKey a, \<lparr>data = f a, timestamp = t, ttl = CACHE_TTL\<rparr>)) as"
  using assms
proof (induction as arbitrary: c)
  case Nil
  then show ?case by simp
next
  case (Cons a as)
  have fresh: "\<forall>kv \<in> set c. \<not> t - timestamp (snd kv) > ttl (snd kv)"
    using Cons.prems(3) by (simp add: CACHE_TTL_def)
  have len: "length c \<le> MAX_CACHE_SIZE"
    using Cons.prems(2) by simp
  have absent: "map_get c (getCacheKey a) = None"
    using Cons.prems(4) by (simp add: map_get_None_iff)
  let ?e = "(getCacheKey a, \<lparr>data = f a, timestamp = t, ttl = CACHE_TTL\<rparr>)"
  have step: "setCachedAnalysis c a (f a) t t = c @ [?e]"
    by (simp add: setCachedAnalysis_def Let_def cleanupCache_fresh [OF fresh len]
        map_set_absent [OF absent])
  have "foldl (\<lambda>c a. setCachedAnalysis c a (f a) t t) (c @ [?e]) as =
        (c @ [?e]) @ map (\<lambda>a. (getCacheKey a, \<lparr>data = f a, timestamp = t, ttl = CACHE_TTL\<rparr>)) as"
  proof (rule Cons.IH)
    show "distinct as" using Cons.prems(1) by simp
    show "length (c @ [?e]) + length as \<le> Suc MAX_CACHE_SIZE" using Cons.prems(2) by simp
    show "\<forall>kv \<in> set (c @ [?e]). timestamp (snd kv) = t \<and> ttl (snd kv) = CACHE_TTL"
      using Cons.prems(3) by auto
    show "\<forall>b \<in> set as. getCacheKey b \<notin> fst ` set (c @ [?e])"
      using Cons.prems(1,4) by (auto simp: getCacheKey_inj)
  qed
  then show ?case by (simp add: step)
qed

lemma distinct_a_keys: "distinct (map (\<lambda>i. replicate (Suc i) (CHR ''a'')) [0..<n])"
proof -
  have "inj_on (\<lambda>i. replicate (Suc i) (CHR ''a'')) (set [0..<n])"
    by (rule inj_onI) (metis length_replicate nat.inject)
  then show ?thesis by (simp add: distinct_map)
qed

lemma batchLoop_calls:
  "\<exists>more. snd (batchLoop conn h a sigs mx i acc) = snd acc @ more"
proof (induction conn h a sigs mx i acc rule: batchLoop.induct)
  case (1 conn isHelius a signatures maxTransactions i acc)
  show ?case
  proof (cases "i < maxTransactions")
    case True
    then show ?thesis
      using 1 [OF refl True refl refl refl refl]
      by (subst batchLoop.simps) (auto simp: Let_def)
  next
    case False
    then show ?thesis by (subst batchLoop.simps) (simp add: Let_def)
  qed
qed

lemma aggregate_throws:
  "fst (aggregate e a) = Inl err \<longleftrightarrow>
     (newConnection e (rpcUrl_of e) = Inl err \<or>
      (\<exists>conn. newConnection e (rpcUrl_of e) = Inr conn \<and> getSignaturesForAddress conn a 50 = Inl err))"
  by (auto simp: aggregate_def Let_def split: sum.splits)

lemma aggregate_empty:
  "newConnection e (rpcUrl_of e) = Inr conn \<Longrightarrow> getSignaturesForAddress conn a 50 = Inr [] \<Longrightarrow>
   aggregate e a = (Inr ([], \<lparr>accountVolumes = [], accountInteractions = []\<rparr>), [GetSignaturesForAddress a 50])"
  by (simp add: aggregate_def Let_def)

lemma aggregate_calls:
  "newConnection e (rpcUrl_of e) = Inr conn \<Longrightarrow>
   \<exists>more. snd (aggregate e a) = GetSignaturesForAddress a 50 # more"
  using batchLoop_calls [of conn "str_includes (rpcUrl_of e) ''helius''" a _ _ 0
      "(\<lparr>accountVolumes = [], accountInteractions = []\<rparr>, [GetSignaturesForAddress a 50])"]
  by (auto simp: aggregate_def Let_def split: sum.splits)


lemma digit_char_in: "digit_char n \<in> set ''0123456789''"
  unfolding digit_char_def by (rule nth_mem) simp

lemma digit_char_not_dot: "digit_char n \<noteq> CHR ''.''"
  using digit_char_in [of n] by auto

lemma dot_notin_show_nat: "CHR ''.'' \<notin> set (show_nat n)"
proof (induction n rule: show_nat.induct)
  case (1 n)
  show ?case
  proof (cases "n < 10")
    case True
    then show ?thesis by (simp add: show_nat_small digit_char_not_dot [symmetric])
  next
    case False
    then show ?thesis using 1 by (simp add: show_nat_large digit_char_not_dot [symmetric])
  qed
qed

lemma length_show_nat_le: "0 < d \<Longrightarrow> n < 10 ^ d \<Longrightarrow> length (show_nat n) \<le> d"
proof (induction n arbitrary: d rule: show_nat.induct)
  case (1 n)
  show ?case
  proof (cases "n < 10")
    case True
    then show ?thesis using "1.prems" by (simp add: show_nat_small)
  next
    case False
    then obtain d' where d: "d = Suc d'" using "1.prems" by (cases d) auto
    have "d' \<noteq> 0" using False "1.prems" d by (cases d') auto
    moreover have "n div 10 < 10 ^ d'"
      using "1.prems" d by (simp add: less_mult_imp_div_less mult.commute)
    ultimately have "length (show_nat (n div 10)) \<le> d'"
      using "1.IH" [OF False, of d'] by simp
    then show ?thesis using False d by (simp add: show_nat_large)
  qed
qed

lemma fraction_digits_plain: "CHR ''.'' \<notin> set s \<Longrightarrow> fraction_digits s = 0"
  by (induction s) (auto simp: fraction_digits_def)

lemma fraction_digits_point:
  "CHR ''.'' \<notin> set s \<Longrightarrow> fraction_digits (s @ CHR ''.'' # t) = length t"
  by (induction s) (auto simp: fraction_digits_def)

lemma fraction_digits_toFixed_nonneg: "fraction_digits (toFixed_nonneg x d) = d"
proof (cases "d = 0")
  case True
  then show ?thesis
    by (simp add: toFixed_nonneg_def Let_def fraction_digits_plain dot_notin_show_nat)
next
  case False
  let ?n = "nat \<lfloor>x * 10 ^ d + 1 / 2\<rfloor>"
  have "length (show_nat (?n mod 10 ^ d)) \<le> d"
    using False by (intro length_show_nat_le) simp_all
  then have "length (pad_zeros d (show_nat (?n mod 10 ^ d))) = d"
    by (simp add: pad_zeros_def)
  then show ?thesis
    using False
    by (simp add: toFixed_nonneg_def Let_def fraction_digits_point dot_notin_show_nat)
qed

lemma fraction_digits_toFixed: "fraction_digits (toFixed x d) = d"
proof (cases "x < 0")
  case True
  have "fraction_digits (CHR ''-'' # s) = fraction_digits s" for s
    by (simp add: fraction_digits_def)
  then show ?thesis using True by (simp add: toFixed_def fraction_digits_toFixed_nonneg)
next
  case False
  then show ?thesis by (simp add: toFixed_def fraction_digits_toFixed_nonneg)
qed


lemma updateLastInteraction_keeps [simp]:
  "transactionCount (updateLastInteraction sg r) = transactionCount r"
  "totalSolFlowLamports (updateLastInteraction sg r) = totalSolFlowLamports r"
  by (simp_all add: updateLastInteraction_def split: lastSeen.splits)

lemma addType_keeps [simp]:
  "transactionCount (addType l r) = transactionCount r"
  "totalSolFlowLamports (addType l r) = totalSolFlowLamports r"
  by (simp_all add: addType_def)

lemma nativeStep_v1_other:
  "keys ! k \<noteq> a \<Longrightarrow>
   map_get (relatedAccountsMap (nativeStep_v1 q m keys sg st k)) a = map_get (relatedAccountsMap st) a"
  by (simp add: nativeStep_v1_def Let_def map_get_map_set_other)

lemma nativeStep_v1_zero:
  "nth_or_0 (postBalances m) k - nth_or_0 (preBalances m) k = 0 \<Longrightarrow>
   relatedAccountsMap (nativeStep_v1 q m keys sg st k) = relatedAccountsMap st"
  by (simp add: nativeStep_v1_def Let_def)

lemma nativeStep_v1_hit:
  assumes "\<not> skipAccount_v1 q a" "keys ! k = a"
    "nth_or_0 (postBalances m) k - nth_or_0 (preBalances m) k \<noteq> 0"
  shows "countOf_v1 (nativeStep_v1 q m keys sg st k) a = countOf_v1 st a + 1"
    and "flowOf_v1 (nativeStep_v1 q m keys sg st k) a =
           flowOf_v1 st a + \<bar>nth_or_0 (postBalances m) k - nth_or_0 (preBalances m) k\<bar>"
  using assms
  by (auto simp: nativeStep_v1_def Let_def countOf_v1_def flowOf_v1_def map_get_map_set_same
      freshAccount_def split: option.splits)

lemma nativeStep_v1_count:
  assumes "\<not> skipAccount_v1 q a"
  shows "countOf_v1 (nativeStep_v1 q m keys sg st k) a =
           countOf_v1 st a + (if hit_v1 m keys a k then 1 else 0)"
    and "flowOf_v1 (nativeStep_v1 q m keys sg st k) a =
           flowOf_v1 st a +
           (if hit_v1 m keys a k
            then \<bar>nth_or_0 (postBalances m) k - nth_or_0 (preBalances m) k\<bar> else 0)"
    and "\<not> hit_v1 m keys a k \<Longrightarrow>
           map_get (relatedAccountsMap (nativeStep_v1 q m keys sg st k)) a =
           map_get (relatedAccountsMap st) a"
proof -
  note hit = nativeStep_v1_hit [where q = q and a = a and keys = keys and k = k and m = m
      and sg = sg and st = st, OF assms]
  note other = nativeStep_v1_other [where q = q and a = a and keys = keys and k = k and m = m
      and sg = sg and st = st]
  note zero = nativeStep_v1_zero [where q = q and keys = keys and k = k and m = m
      and sg = sg and st = st]
  show "countOf_v1 (nativeStep_v1 q m keys sg st k) a =
           countOf_v1 st a + (if hit_v1 m keys a k then 1 else 0)"
    using hit(1) other zero by (auto simp: hit_v1_def countOf_v1_def)
  show "flowOf_v1 (nativeStep_v1 q m keys sg st k) a =
           flowOf_v1 st a +
           (if hit_v1 m keys a k
            then \<bar>nth_or_0 (postBalances m) k - nth_or_0 (preBalances m) k\<bar> else 0)"
    using hit(2) other zero by (auto simp: hit_v1_def flowOf_v1_def)
  show "map_get (relatedAccountsMap (nativeStep_v1 q m keys sg st k)) a =
           map_get (relatedAccountsMap st) a" if "\<not> hit_v1 m keys a k"
    using that other zero by (auto simp: hit_v1_def)
qed

lemma nativeFold_v1:
  assumes "\<not> skipAccount_v1 q a"
  shows "countOf_v1 (foldl (nativeStep_v1 q m keys sg) st ks) a =
           countOf_v1 st a + length (filter (hit_v1 m keys a) ks) \<and>
         flowOf_v1 (foldl (nativeStep_v1 q m keys sg) st ks) a =
           flowOf_v1 st a +
           (\<Sum>k\<leftarrow>filter (hit_v1 m keys a) ks.
              \<bar>nth_or_0 (postBalances m) k - nth_or_0 (preBalances m) k\<bar>) \<and>
         (filter (hit_v1 m keys a) ks = [] \<longrightarrow>
            map_get (relatedAccountsMap (foldl (nativeStep_v1 q m keys sg) st ks)) a =
            map_get (relatedAccountsMap st) a)"
proof (induction ks arbitrary: st)
  case Nil
  show ?case by simp
next
  case (Cons k ks)
  show ?case
    using Cons.IH [of "nativeStep_v1 q m keys sg st k"]
      nativeStep_v1_count [OF assms, where m = m and keys = keys and sg = sg and st = st and k = k]
    by (auto split: if_splits)
qed


lemma nativeStep_count:
  assumes "\<not> skipAccount q a"
  shows "get_or_0 (accountInteractions (nativeStep q m keys st k)) a =
           get_or_0 (accountInteractions st) a + (if seen_at keys a k then 1 else 0)"
    and "get_or_0 (accountVolumes (nativeStep q m keys st k)) a =
           get_or_0 (accountVolumes st) a +
           (if seen_at keys a k \<and> moved_at m k
            then real_of_int \<bar>postBalances m ! k - preBalances m ! k\<bar> / 10 ^ 9 else 0)"
  using assms
  by (auto simp: nativeStep_def Let_def get_or_0_def seen_at_def moved_at_def
      map_get_map_set_same map_get_map_set_other)

lemma nativeFold:
  assumes "\<not> skipAccount q a"
  shows "get_or_0 (accountInteractions (foldl (nativeStep q m keys) st ks)) a =
           get_or_0 (accountInteractions st) a + length (filter (seen_at keys a) ks) \<and>
         get_or_0 (accountVolumes (foldl (nativeStep q m keys) st ks)) a =
           get_or_0 (accountVolumes st) a +
           (\<Sum>k\<leftarrow>filter (\<lambda>k. seen_at keys a k \<and> moved_at m k) ks.
              real_of_int \<bar>postBalances m ! k - preBalances m ! k\<bar> / 10 ^ 9)"
proof (induction ks arbitrary: st)
  case Nil
  show ?case by simp
next
  case (Cons k ks)
  show ?case
    using Cons.IH [of "nativeStep q m keys st k"]
      nativeStep_count [OF assms, where m = m and keys = keys and st = st and k = k]
    by (auto split: if_splits)
qed



section \<open>Formatting of amounts\<close>

text \<open>
  C8 (amended). For a value \<open>x\<close> with \<open>0 \<le> x < 10^21\<close>, \<open>formatSolAmount\<close> of the cached
  route follows the graduated policy and nothing else: 0 gives \<open>0 SOL\<close>, a value below
  0.001 is rendered by \<open>toFixed\<close> with 6 decimal places, below 1 with 3, below 1000 with 2,
  and any other value with 0; \<open>toFixed x d\<close> shows exactly \<open>d\<close> digits after the point.
  \<open>formatSolAmount_v1\<close> of the earlier route takes lamports, divides by \<open>10^9\<close> and
  has one more branch: a positive value below 0.000001 SOL is rendered as
  \<open><0.000001 SOL\<close>; from 0.000001 SOL on it follows the same brackets.
\<close>

theorem formatSolAmount_brackets:
  assumes "0 \<le> x" and "x < 10 ^ 21"
  shows "(x = 0 \<longrightarrow> formatSolAmount x = ''0 SOL'') \<and>
         (0 < x \<and> x < 0.001 \<longrightarrow> formatSolAmount x = toFixed x 6 @ '' SOL'') \<and>
         (0.001 \<le> x \<and> x < 1 \<longrightarrow> formatSolAmount x = toFixed x 3 @ '' SOL'') \<and>
         (1 \<le> x \<and> x < 1000 \<longrightarrow> formatSolAmount x = toFixed x 2 @ '' SOL'') \<and>
         (1000 \<le> x \<longrightarrow> formatSolAmount x = toFixed x 0 @ '' SOL'') \<and>
         (\<forall>d. fraction_digits (toFixed x d) = d) \<and>
         (x = 0 \<longrightarrow> formatSolAmount_v1 (x * 10 ^ 9) = ''0 SOL'') \<and>
         (0 < x \<and> x < 0.000001 \<longrightarrow> formatSolAmount_v1 (x * 10 ^ 9) = ''<0.000001 SOL'') \<and>
         (0.000001 \<le> x \<and> x < 0.001 \<longrightarrow> formatSolAmount_v1 (x * 10 ^ 9) = toFixed x 6 @ '' SOL'') \<and>
         (0.001 \<le> x \<and> x < 1 \<longrightarrow> formatSolAmount_v1 (x * 10 ^ 9) = toFixed x 3 @ '' SOL'') \<and>
         (1 \<le> x \<and> x < 1000 \<longrightarrow> formatSolAmount_v1 (x * 10 ^ 9) = toFixed x 2 @ '' SOL'') \<and>
         (1000 \<le> x \<longrightarrow> formatSolAmount_v1 (x * 10 ^ 9) = toFixed x 0 @ '' SOL'')"
  using assms by (simp add: formatSolAmount_def formatSolAmount_v1_def Let_def fraction_digits_toFixed)

theorem formatSolAmount_brackets_witness:
  "formatSolAmount 0 = ''0 SOL'' \<and>
   formatSolAmount 0.0009 = ''0.000900 SOL'' \<and>
   formatSolAmount 0.5 = ''0.500 SOL'' \<and>
   formatSolAmount 500 = ''500.00 SOL'' \<and>
   formatSolAmount 5000 = ''5000 SOL'' \<and>
   formatSolAmount_v1 2000000000 = ''2.00 SOL'' \<and>
   formatSolAmount_v1 300 = ''<0.000001 SOL''"
proof -
  have a: "formatSolAmount 0 = ''0 SOL''"
    using formatSolAmount_brackets [of 0] by simp
  have "formatSolAmount 0.0009 = toFixed 0.0009 6 @ '' SOL''"
    using formatSolAmount_brackets [of "0.0009"] by simp
  then have b: "formatSolAmount 0.0009 = ''0.000900 SOL''"
    by (simp add: render_simps)
  have "formatSolAmount 0.5 = toFixed 0.5 3 @ '' SOL''"
    using formatSolAmount_brackets [of "0.5"] by simp
  then have c: "formatSolAmount 0.5 = ''0.500 SOL''"
    by (simp add: render_simps)
  have "formatSolAmount 500 = toFixed 500 2 @ '' SOL''"
    using formatSolAmount_brackets [of 500] by simp
  then have d: "formatSolAmount 500 = ''500.00 SOL''"
    by (simp add: render_simps)
  have "formatSolAmount 5000 = toFixed 5000 0 @ '' SOL''"
    using formatSolAmount_brackets [of 5000] by simp
  then have e: "formatSolAmount 5000 = ''5000 SOL''"
    by (simp add: render_simps)
  have "formatSolAmount_v1 (2 * 10 ^ 9) = toFixed 2 2 @ '' SOL''"
    using formatSolAmount_brackets [of 2] by simp
  then have f: "formatSolAmount_v1 2000000000 = ''2.00 SOL''"
    by (simp add: render_simps)
  have "formatSolAmount_v1 (0.0000003 * 10 ^ 9) = ''<0.000001 SOL''"
    using formatSolAmount_brackets [of "0.0000003"] by simp
  then have g: "formatSolAmount_v1 300 = ''<0.000001 SOL''"
    by simp
  show ?thesis using a b c d e f g by blast
qed

text \<open>
  C8 as stated fails on the earlier route: 300 lamports are below 0.001 SOL, where the
  policy asks for 6 decimal places (\<open>0.000000 SOL\<close>), and are rendered as
  \<open><0.000001 SOL\<close>.
\<close>

theorem formatSolAmount_v1_extra_branch:
  "(0::real) \<le> 300 / 10 ^ 9 \<and> (300::real) / 10 ^ 9 < 0.001 \<and>
   formatSolAmount_v1 300 = ''<0.000001 SOL'' \<and>
   toFixed (300 / 10 ^ 9) 6 @ '' SOL'' = ''0.000000 SOL'' \<and>
   formatSolAmount_v1 300 \<noteq> toFixed (300 / 10 ^ 9) 6 @ '' SOL''"
  by (simp add: formatSolAmount_v1_def render_simps)


section \<open>The native-balance pass\<close>

text \<open>
  C2 (amended). Take an account that is neither the queried address nor one of the skipped
  program accounts. In the native pass of the earlier route over one transaction, its
  \<open>transactionCount\<close> grows by the number of positions that hold the account with a
  non-zero balance delta, its \<open>totalSolFlowLamports\<close> grows by the sum of the absolute
  deltas at those positions, and when there is no such position its entry is left as it
  was. In the native pass of the cached route, its interaction count grows by the number
  of positions that hold the account, whatever the delta, and its volume grows by the sum
  of \<open>\<bar>delta\<bar> / 10^9\<close> over those positions at which both balances are listed and the
  delta is not zero.
\<close>

theorem native_pass_records:
  "(\<not> skipAccount_v1 q a \<longrightarrow>
      countOf_v1 (nativePass_v1 q m keys sg st) a =
        countOf_v1 st a + length (filter (hit_v1 m keys a) [0..<length keys]) \<and>
      flowOf_v1 (nativePass_v1 q m keys sg st) a =
        flowOf_v1 st a +
        (\<Sum>k\<leftarrow>filter (hit_v1 m keys a) [0..<length keys].
           \<bar>nth_or_0 (postBalances m) k - nth_or_0 (preBalances m) k\<bar>) \<and>
      (filter (hit_v1 m keys a) [0..<length keys] = [] \<longrightarrow>
         map_get (relatedAccountsMap (nativePass_v1 q m keys sg st)) a =
         map_get (relatedAccountsMap st) a)) \<and>
   (\<not> skipAccount q a \<longrightarrow>
      get_or_0 (accountInteractions (nativePass q m keys ty)) a =
        get_or_0 (accountInteractions ty) a + length (filter (seen_at keys a) [0..<length keys]) \<and>
      get_or_0 (accountVolumes (nativePass q m keys ty)) a =
        get_or_0 (accountVolumes ty) a +
        (\<Sum>k\<leftarrow>filter (\<lambda>k. seen_at keys a k \<and> moved_at m k) [0..<length keys].
           real_of_int \<bar>postBalances m ! k - preBalances m ! k\<bar> / 10 ^ 9))"
  using nativeFold_v1 [where q = q and a = a and m = m and keys = keys and sg = sg and st = st
      and ks = "[0..<length keys]"]
    nativeFold [where q = q and a = a and m = m and keys = keys and st = ty
      and ks = "[0..<length keys]"]
  by (simp add: nativePass_v1_def nativePass_def)

theorem native_pass_records_witness:
  "\<not> skipAccount_v1 ''Q'' ''X'' \<and> \<not> skipAccount_v1 ''Q'' ''Y'' \<and>
   \<not> skipAccount ''Q'' ''X'' \<and> \<not> skipAccount ''Q'' ''Y'' \<and>
   countOf_v1
     (nativePass_v1 ''Q''
        \<lparr>preBalances = [10, 0, 5, 7], postBalances = [4, 3, 5, 10],
         preTokenBalances = None, postTokenBalances = None\<rparr>
        [''Q'', ''X'', ''Y'', ''X''] \<lparr>signature = ''s1'', blockTime = None\<rparr>
        \<lparr>relatedAccountsMap = [],
         debugInfo = \<lparr>processedTxs = 0, totalAccounts = 0, filteredAccounts = 0, errors = [],
                      balanceChanges = 0, tokenChanges = 0, rpcUsed = [], finalAccountCount = None\<rparr>\<rparr>)
     ''X'' = 2 \<and>
   flowOf_v1
     (nativePass_v1 ''Q''
        \<lparr>preBalances = [10, 0, 5, 7], postBalances = [4, 3, 5, 10],
         preTokenBalances = None, postTokenBalances = None\<rparr>
        [''Q'', ''X'', ''Y'', ''X''] \<lparr>signature = ''s1'', blockTime = None\<rparr>
        \<lparr>relatedAccountsMap = [],
         debugInfo = \<lparr>processedTxs = 0, totalAccounts = 0, filteredAccounts = 0, errors = [],
                      balanceChanges = 0, tokenChanges = 0, rpcUsed = [], finalAccountCount = None\<rparr>\<rparr>)
     ''X'' = 6 \<and>
   map_get (relatedAccountsMap
     (nativePass_v1 ''Q''
        \<lparr>preBalances = [10, 0, 5, 7], postBalances = [4, 3, 5, 10],
         preTokenBalances = None, postTokenBalances = None\<rparr>
        [''Q'', ''X'', ''Y'', ''X''] \<lparr>signature = ''s1'', blockTime = None\<rparr>
        \<lparr>relatedAccountsMap = [],
         debugInfo = \<lparr>processedTxs = 0, totalAccounts = 0, filteredAccounts = 0, errors = [],
                      balanceChanges = 0, tokenChanges = 0, rpcUsed = [], finalAccountCount = None\<rparr>\<rparr>))
     ''Y'' = None \<and>
   get_or_0 (accountInteractions
     (nativePass ''Q''
        \<lparr>preBalances = [10, 0, 5, 7], postBalances = [4, 3, 5, 10],
         preTokenBalances = None, postTokenBalances = None\<rparr>
        [''Q'', ''X'', ''Y'', ''X''] \<lparr>accountVolumes = [], accountInteractions = []\<rparr>)) ''X'' = 2 \<and>
   get_or_0 (accountVolumes
     (nativePass ''Q''
        \<lparr>preBalances = [10, 0, 5, 7], postBalances = [4, 3, 5, 10],
         preTokenBalances = None, postTokenBalances = None\<rparr>
        [''Q'', ''X'', ''Y'', ''X''] \<lparr>accountVolumes = [], accountInteractions = []\<rparr>)) ''X'' = 6 / 10 ^ 9 \<and>
   get_or_0 (accountInteractions
     (nativePass ''Q''
        \<lparr>preBalances = [10, 0, 5, 7], postBalances = [4, 3, 5, 10],
         preTokenBalances = None, postTokenBalances = None\<rparr>
        [''Q'', ''X'', ''Y'', ''X''] \<lparr>accountVolumes = [], accountInteractions = []\<rparr>)) ''Y'' = 1"
proof -
  let ?m = "\<lparr>preBalances = [10, 0, 5, 7], postBalances = [4, 3, 5, 10],
         preTokenBalances = None, postTokenBalances = None\<rparr>"
  let ?keys = "[''Q'', ''X'', ''Y'', ''X'']"
  let ?sg = "\<lparr>signature = ''s1'', blockTime = None\<rparr>"
  let ?st = "\<lparr>relatedAccountsMap = [],
         debugInfo = \<lparr>processedTxs = 0, totalAccounts = 0, filteredAccounts = 0, errors = [],
                      balanceChanges = 0, tokenChanges = 0, rpcUsed = [], finalAccountCount = None\<rparr>\<rparr>"
  let ?tl = "\<lparr>accountVolumes = [], accountInteractions = []\<rparr>"
  have s: "\<not> skipAccount_v1 ''Q'' ''X''" "\<not> skipAccount_v1 ''Q'' ''Y''"
    "\<not> skipAccount ''Q'' ''X''" "\<not> skipAccount ''Q'' ''Y''"
    by (simp_all add: skipAccount_v1_def skipAccount_def)
  have x: "filter (hit_v1 ?m ?keys ''X'') [0..<length ?keys] = [1, 3]"
    "filter (hit_v1 ?m ?keys ''Y'') [0..<length ?keys] = []"
    "filter (seen_at ?keys ''X'') [0..<length ?keys] = [1, 3]"
    "filter (seen_at ?keys ''Y'') [0..<length ?keys] = [2]"
    "filter (\<lambda>k. seen_at ?keys ''X'' k \<and> moved_at ?m k) [0..<length ?keys] = [1, 3]"
    by (simp_all add: hit_v1_def seen_at_def moved_at_def nth_or_0_def)
  note X = native_pass_records [of "''Q''" "''X''" ?m ?keys ?sg ?st ?tl]
  note Y = native_pass_records [of "''Q''" "''Y''" ?m ?keys ?sg ?st ?tl]
  have "countOf_v1 (nativePass_v1 ''Q'' ?m ?keys ?sg ?st) ''X'' =
          countOf_v1 ?st ''X'' + length (filter (hit_v1 ?m ?keys ''X'') [0..<length ?keys])"
    using X s(1) by blast
  then have a: "countOf_v1 (nativePass_v1 ''Q'' ?m ?keys ?sg ?st) ''X'' = 2"
    unfolding x by (simp add: countOf_v1_def map_get_def)
  have "flowOf_v1 (nativePass_v1 ''Q'' ?m ?keys ?sg ?st) ''X'' =
          flowOf_v1 ?st ''X'' +
          (\<Sum>k\<leftarrow>filter (hit_v1 ?m ?keys ''X'') [0..<length ?keys].
             \<bar>nth_or_0 (postBalances ?m) k - nth_or_0 (preBalances ?m) k\<bar>)"
    using X s(1) by blast
  then have b: "flowOf_v1 (nativePass_v1 ''Q'' ?m ?keys ?sg ?st) ''X'' = 6"
    unfolding x by (simp add: flowOf_v1_def map_get_def nth_or_0_def)
  have "map_get (relatedAccountsMap (nativePass_v1 ''Q'' ?m ?keys ?sg ?st)) ''Y'' =
          map_get (relatedAccountsMap ?st) ''Y''"
    using Y s(2) x(2) by blast
  then have c: "map_get (relatedAccountsMap (nativePass_v1 ''Q'' ?m ?keys ?sg ?st)) ''Y'' = None"
    by (simp add: map_get_def)
  have "get_or_0 (accountInteractions (nativePass ''Q'' ?m ?keys ?tl)) ''X'' =
          get_or_0 (accountInteractions ?tl) ''X'' +
          length (filter (seen_at ?keys ''X'') [0..<length ?keys])"
    using X s(3) by blast
  then have d: "get_or_0 (accountInteractions (nativePass ''Q'' ?m ?keys ?tl)) ''X'' = 2"
    unfolding x by (simp add: get_or_0_def map_get_def)
  have "get_or_0 (accountVolumes (nativePass ''Q'' ?m ?keys ?tl)) ''X'' =
          get_or_0 (accountVolumes ?tl) ''X'' +
          (\<Sum>k\<leftarrow>filter (\<lambda>k. seen_at ?keys ''X'' k \<and> moved_at ?m k) [0..<length ?keys].
             real_of_int \<bar>postBalances ?m ! k - preBalances ?m ! k\<bar> / 10 ^ 9)"
    using X s(3) by blast
  then have e: "get_or_0 (accountVolumes (nativePass ''Q'' ?m ?keys ?tl)) ''X'' = 6 / 10 ^ 9"
    unfolding x by (simp add: get_or_0_def map_get_def)
  have "get_or_0 (accountInteractions (nativePass ''Q'' ?m ?keys ?tl)) ''Y'' =
          get_or_0 (accountInteractions ?tl) ''Y'' +
          length (filter (seen_at ?keys ''Y'') [0..<length ?keys])"
    using Y s(4) by blast
  then have f: "get_or_0 (accountInteractions (nativePass ''Q'' ?m ?keys ?tl)) ''Y'' = 1"
    unfolding x by (simp add: get_or_0_def map_get_def)
  show ?thesis
    using s a b c d e f by blast
qed

text \<open>
  C2 as stated fails on the cached route: a position whose balance did not move still
  counts as an interaction of its account.
\<close>

theorem native_pass_counts_unmoved_balance:
  "\<not> skipAccount ''Q'' ''X'' \<and>
   postBalances \<lparr>preBalances = [5], postBalances = [5],
                 preTokenBalances = None, postTokenBalances = None\<rparr> ! 0 -
   preBalances \<lparr>preBalances = [5], postBalances = [5],
                preTokenBalances = None, postTokenBalances = None\<rparr> ! 0 = 0 \<and>
   nativePass ''Q''
     \<lparr>preBalances = [5], postBalances = [5], preTokenBalances = None, postTokenBalances = None\<rparr>
     [''X''] \<lparr>accountVolumes = [], accountInteractions = []\<rparr> =
     \<lparr>accountVolumes = [], accountInteractions = [(''X'', 1)]\<rparr> \<and>
   nativePass ''Q''
     \<lparr>preBalances = [5], postBalances = [5], preTokenBalances = None, postTokenBalances = None\<rparr>
     [''X''] \<lparr>accountVolumes = [], accountInteractions = []\<rparr> \<noteq>
     \<lparr>accountVolumes = [], accountInteractions = []\<rparr>"
  by (simp add: nativePass_def nativeStep_def skipAccount_def get_or_0_def map_get_def)


section \<open>The capacity of the cache\<close>

text \<open>
  C1. \<open>MAX_CACHE_SIZE\<close> is documented as the maximum number of cached entries, but
  \<open>cleanupCache\<close> runs before the insertion and trims only a store of more than
  \<open>MAX_CACHE_SIZE\<close> entries, down to \<open>MAX_CACHE_SIZE\<close>. Storing 1001 distinct addresses, none
  of them expired, in an empty cache leaves 1001 entries.
\<close>

theorem cache_exceeds_MAX_CACHE_SIZE:
  "length (foldl (\<lambda>c a. setCachedAnalysis c a
                    \<lparr>address = a, isValid = True, relatedAccounts = [], error = None\<rparr> 0 0)
             [] (map (\<lambda>i. replicate (Suc i) (CHR ''a'')) [0..<1001])) = 1001 \<and>
   MAX_CACHE_SIZE = 1000"
proof -
  have "foldl (\<lambda>c a. setCachedAnalysis c a
                    \<lparr>address = a, isValid = True, relatedAccounts = [], error = None\<rparr> 0 0)
             [] (map (\<lambda>i. replicate (Suc i) (CHR ''a'')) [0..<1001]) =
        [] @ map (\<lambda>a. (getCacheKey a,
                  \<lparr>data = \<lparr>address = a, isValid = True, relatedAccounts = [], error = None\<rparr>,
                   timestamp = 0, ttl = CACHE_TTL\<rparr>))
               (map (\<lambda>i. replicate (Suc i) (CHR ''a'')) [0..<1001])"
  proof (rule setCachedAnalysis_fresh_run)
    show "distinct (map (\<lambda>i. replicate (Suc i) (CHR ''a'')) [0..<1001])"
      by (rule distinct_a_keys)
  qed (simp_all add: MAX_CACHE_SIZE_def)
  then show ?thesis by (simp add: MAX_CACHE_SIZE_def)
qed


lemmas run_simps = analyzeAddress_def run_env_def provider_def transfer_tx_def
  getCachedAnalysis_def getCacheKey_def map_get_def map_delete_def aggregate_def rpcUrl_of_def
  FALLBACK_RPCS_def batchLoop.simps fetchBatch_def processTx_def nativePass_def nativeStep_def
  skipAccount_def get_or_0_def rankAccounts_def set_of_array_def array_sort_def byVolume_def
  stripRanked_def formatSolAmount_def setCachedAnalysis_def cleanupCache_def CACHE_TTL_def
  MAX_CACHE_SIZE_def errorMessage_def


section \<open>Invalid addresses\<close>

text \<open>
  C6 (amended). For an address the validator rejects, the cached route answers with
  \<open>isValid = False\<close>, the message \<open>Invalid Solana address format\<close> (which is not empty)
  and an empty \<open>relatedAccounts\<close> list, whatever the cache holds: the cache is returned as
  it was and no request is sent. The earlier route answers with \<open>isValid = False\<close> and
  the same message, and its \<open>relatedAccounts\<close> field is absent.
\<close>

theorem invalid_address_rejected:
  assumes "\<not> isValidSolanaAddress e a"
  shows "analyzeAddress e c a =
           (\<lparr>address = a, isValid = False, relatedAccounts = [],
             error = Some ''Invalid Solana address format''\<rparr>, c, []) \<and>
         ''Invalid Solana address format'' \<noteq> [] \<and>
         analyzeAddress_v1 e a =
           \<lparr>resp_address_v1 = a, isValid_v1 = False, totalTransactions = None,
            sampledTransactions = None, relatedAccounts_v1 = None,
            error_v1 = Some ''Invalid Solana address format'', debug = None\<rparr>"
  using assms by (simp add: analyzeAddress_def analyzeAddress_v1_def)

theorem invalid_address_rejected_witness:
  "\<not> isValidSolanaAddress (run_env False (provider (Inr []) []) 0) ''not-an-address'' \<and>
   analyzeAddress (run_env False (provider (Inr []) []) 0)
     [(''analysis:not-an-address'',
       \<lparr>data = \<lparr>address = ''not-an-address'', isValid = True, relatedAccounts = [], error = None\<rparr>,
        timestamp = 0, ttl = 300000\<rparr>)] ''not-an-address'' =
     (\<lparr>address = ''not-an-address'', isValid = False, relatedAccounts = [],
       error = Some ''Invalid Solana address format''\<rparr>,
      [(''analysis:not-an-address'',
       \<lparr>data = \<lparr>address = ''not-an-address'', isValid = True, relatedAccounts = [], error = None\<rparr>,
        timestamp = 0, ttl = 300000\<rparr>)], [])"
proof -
  have h: "\<not> isValidSolanaAddress (run_env False (provider (Inr []) []) 0) ''not-an-address''"
    by (simp add: run_env_def)
  show ?thesis
    using h invalid_address_rejected [OF h] by simp
qed

text \<open>
  C6 as stated fails on the earlier route: its answer to an invalid address has no
  \<open>relatedAccounts\<close> field, rather than an empty list.
\<close>

theorem invalid_address_v1_has_no_relatedAccounts:
  "\<not> isValidSolanaAddress (run_env False (provider (Inr []) []) 0) ''not-an-address'' \<and>
   isValid_v1 (analyzeAddress_v1 (run_env False (provider (Inr []) []) 0) ''not-an-address'') = False \<and>
   relatedAccounts_v1 (analyzeAddress_v1 (run_env False (provider (Inr []) []) 0) ''not-an-address'') = None \<and>
   relatedAccounts_v1 (analyzeAddress_v1 (run_env False (provider (Inr []) []) 0) ''not-an-address'') \<noteq> Some []"
  by (simp add: analyzeAddress_v1_def run_env_def)


section \<open>Failure of the fetch\<close>

text \<open>
  C7. When the run fails as a whole (the connection cannot be made, or the listing of
  signatures throws) on a valid address that the cache does not serve, \<open>analyzeAddress\<close>
  returns a payload with the message \<open>Failed to analyze address: ...\<close> and an empty
  \<open>relatedAccounts\<close> list, and stores this payload under the address with a lifetime of
  60000 ms, which is less than \<open>CACHE_TTL\<close>, the lifetime \<open>setCachedAnalysis\<close> gives to
  every successful result.
\<close>

theorem failure_is_cached_briefly:
  assumes valid: "isValidSolanaAddress e a"
    and miss: "fst (getCachedAnalysis c a (now_lookup e)) = None"
    and fails: "newConnection e (rpcUrl_of e) = Inl err \<or>
                (\<exists>conn. newConnection e (rpcUrl_of e) = Inr conn \<and>
                        getSignaturesForAddress conn a 50 = Inl err)"
  shows "(\<exists>c' calls.
            analyzeAddress e c a =
              (\<lparr>address = a, isValid = True, relatedAccounts = [],
                error = Some (''Failed to analyze address: '' @ errorMessage err)\<rparr>, c', calls) \<and>
            ''Failed to analyze address: '' @ errorMessage err \<noteq> [] \<and>
            map_get c' (getCacheKey a) =
              Some \<lparr>data = \<lparr>address = a, isValid = True, relatedAccounts = [],
                             error = Some (''Failed to analyze address: '' @ errorMessage err)\<rparr>,
                    timestamp = now_store e, ttl = 60000\<rparr>) \<and>
         60000 < CACHE_TTL \<and>
         (\<forall>c0 a0 d0 t0 t1.
            map_get (setCachedAnalysis c0 a0 d0 t0 t1) (getCacheKey a0) =
              Some \<lparr>data = d0, timestamp = t0, ttl = CACHE_TTL\<rparr>)"
proof -
  from fails have "fst (aggregate e a) = Inl err"
    by (simp add: aggregate_throws)
  then obtain calls where agg: "aggregate e a = (Inl err, calls)"
    by (cases "aggregate e a") simp
  obtain c1 where look: "getCachedAnalysis c a (now_lookup e) = (None, c1)"
    using miss by (cases "getCachedAnalysis c a (now_lookup e)") simp
  show ?thesis
    using valid
    by (simp add: analyzeAddress_def look agg Let_def map_get_map_set_same CACHE_TTL_def
        setCachedAnalysis_def)
qed

theorem failure_is_cached_briefly_witness:
  "isValidSolanaAddress (run_env True (provider (Inl (Error ''429 Too Many Requests'')) []) 7) ''Q'' \<and>
   fst (getCachedAnalysis [] ''Q'' (now_lookup (run_env True (provider (Inl (Error ''429 Too Many Requests'')) []) 7))) = None \<and>
   (\<exists>c' calls.
      analyzeAddress (run_env True (provider (Inl (Error ''429 Too Many Requests'')) []) 7) [] ''Q'' =
        (\<lparr>address = ''Q'', isValid = True, relatedAccounts = [],
          error = Some ''Failed to analyze address: 429 Too Many Requests''\<rparr>, c', calls) \<and>
      map_get c' ''analysis:Q'' =
        Some \<lparr>data = \<lparr>address = ''Q'', isValid = True, relatedAccounts = [],
                       error = Some ''Failed to analyze address: 429 Too Many Requests''\<rparr>,
              timestamp = 7, ttl = 60000\<rparr>)"
proof -
  let ?e = "run_env True (provider (Inl (Error ''429 Too Many Requests'')) []) 7"
  have v: "isValidSolanaAddress ?e ''Q''"
    by (simp add: run_env_def)
  have m: "fst (getCachedAnalysis [] ''Q'' (now_lookup ?e)) = None"
    by (simp add: getCachedAnalysis_def map_get_def)
  have f: "newConnection ?e (rpcUrl_of ?e) = Inl (Error ''429 Too Many Requests'') \<or>
           (\<exists>conn. newConnection ?e (rpcUrl_of ?e) = Inr conn \<and>
                   getSignaturesForAddress conn ''Q'' 50 = Inl (Error ''429 Too Many Requests''))"
    by (simp add: run_env_def provider_def)
  show ?thesis
    using v m failure_is_cached_briefly [OF v m f, THEN conjunct1]
    by (simp add: errorMessage_def getCacheKey_def run_env_def)
qed


section \<open>An address without transactions\<close>

text \<open>
  C10 (amended). For a valid address that the cache does not serve and whose listing of
  signatures is empty, \<open>analyzeAddress\<close> returns \<open>isValid = True\<close> with an empty
  \<open>relatedAccounts\<close> list and writes no cache entry: the cache it leaves is the one the
  lookup left, which has no entry for the address, agrees with the cache before the call on
  every other key, and is the cache before the call when that held no entry for the
  address. Every later call for the address on this cache, by a run that reaches the
  provider, starts with a new listing request.
\<close>

theorem empty_listing_not_cached:
  assumes valid: "isValidSolanaAddress e a"
    and miss: "fst (getCachedAnalysis c a (now_lookup e)) = None"
    and conn: "newConnection e (rpcUrl_of e) = Inr conn"
    and none: "getSignaturesForAddress conn a 50 = Inr []"
  shows "\<exists>c'. analyzeAddress e c a =
           (\<lparr>address = a, isValid = True, relatedAccounts = [], error = None\<rparr>, c',
            [GetSignaturesForAddress a 50]) \<and>
         c' = snd (getCachedAnalysis c a (now_lookup e)) \<and>
         map_get c' (getCacheKey a) = None \<and>
         (\<forall>k. k \<noteq> getCacheKey a \<longrightarrow> map_get c' k = map_get c k) \<and>
         (map_get c (getCacheKey a) = None \<longrightarrow> c' = c) \<and>
         (\<forall>e2 conn2. isValidSolanaAddress e2 a \<and> newConnection e2 (rpcUrl_of e2) = Inr conn2 \<longrightarrow>
            (\<exists>more. snd (snd (analyzeAddress e2 c' a)) = GetSignaturesForAddress a 50 # more))"
proof -
  obtain c1 where look: "getCachedAnalysis c a (now_lookup e) = (None, c1)"
    using miss by (cases "getCachedAnalysis c a (now_lookup e)") simp
  have res: "analyzeAddress e c a =
           (\<lparr>address = a, isValid = True, relatedAccounts = [], error = None\<rparr>, c1,
            [GetSignaturesForAddress a 50])"
    using valid by (simp add: analyzeAddress_def look aggregate_empty [OF conn none])
  have gone: "map_get c1 (getCacheKey a) = None"
    using look
    by (auto simp: getCachedAnalysis_def Let_def map_get_map_delete_same
        split: option.splits if_splits)
  have others: "map_get c1 k = map_get c k" if "k \<noteq> getCacheKey a" for k
    using look that
    by (auto simp: getCachedAnalysis_def Let_def map_get_map_delete_other
        split: option.splits if_splits)
  have same: "c1 = c" if "map_get c (getCacheKey a) = None"
    using look that by (simp add: getCachedAnalysis_def Let_def)
  have again: "\<exists>more. snd (snd (analyzeAddress e2 c1 a)) = GetSignaturesForAddress a 50 # more"
    if v2: "isValidSolanaAddress e2 a" and c2: "newConnection e2 (rpcUrl_of e2) = Inr conn2"
    for e2 conn2
  proof -
    have l2: "getCachedAnalysis c1 a (now_lookup e2) = (None, c1)"
      using gone by (simp add: getCachedAnalysis_def Let_def)
    obtain more where m: "snd (aggregate e2 a) = GetSignaturesForAddress a 50 # more"
      using aggregate_calls [OF c2] by blast
    show ?thesis
      using v2 m
      by (cases "aggregate e2 a")
        (auto simp: analyzeAddress_def l2 Let_def split: sum.splits prod.splits)
  qed
  show ?thesis
    using res gone others same again look by auto
qed

theorem empty_listing_not_cached_witness:
  "isValidSolanaAddress (run_env True (provider (Inr []) []) 7) ''Q'' \<and>
   fst (getCachedAnalysis [] ''Q'' (now_lookup (run_env True (provider (Inr []) []) 7))) = None \<and>
   analyzeAddress (run_env True (provider (Inr []) []) 7) [] ''Q'' =
     (\<lparr>address = ''Q'', isValid = True, relatedAccounts = [], error = None\<rparr>, [],
      [GetSignaturesForAddress ''Q'' 50]) \<and>
   (\<exists>more. snd (snd (analyzeAddress (run_env True (provider (Inr []) []) 8) [] ''Q'')) =
             GetSignaturesForAddress ''Q'' 50 # more)"
proof -
  let ?e = "run_env True (provider (Inr []) []) 7"
  let ?e2 = "run_env True (provider (Inr []) []) 8"
  have v: "isValidSolanaAddress ?e ''Q''"
    by (simp add: run_env_def)
  have m: "fst (getCachedAnalysis [] ''Q'' (now_lookup ?e)) = None"
    by (simp add: getCachedAnalysis_def map_get_def)
  have c: "newConnection ?e (rpcUrl_of ?e) = Inr (provider (Inr []) [])"
    by (simp add: run_env_def)
  have n: "getSignaturesForAddress (provider (Inr []) []) ''Q'' 50 = Inr []"
    by (simp add: provider_def)
  have v2: "isValidSolanaAddress ?e2 ''Q'' \<and>
            newConnection ?e2 (rpcUrl_of ?e2) = Inr (provider (Inr []) [])"
    by (simp add: run_env_def)
  have l: "snd (getCachedAnalysis [] ''Q'' (now_lookup ?e)) = []"
    by (simp add: getCachedAnalysis_def map_get_def)
  from empty_listing_not_cached [OF v m c n] obtain c' where
    r: "analyzeAddress ?e [] ''Q'' =
          (\<lparr>address = ''Q'', isValid = True, relatedAccounts = [], error = None\<rparr>, c',
           [GetSignaturesForAddress ''Q'' 50])"
    and c': "c' = snd (getCachedAnalysis [] ''Q'' (now_lookup ?e))"
    and again: "\<forall>e2 conn2. isValidSolanaAddress e2 ''Q'' \<and> newConnection e2 (rpcUrl_of e2) = Inr conn2 \<longrightarrow>
            (\<exists>more. snd (snd (analyzeAddress e2 c' ''Q'')) = GetSignaturesForAddress ''Q'' 50 # more)"
    by blast
  have "c' = []" using c' l by simp
  then show ?thesis using v m r again v2 by blast
qed

text \<open>
  C10 as stated fails where the cache holds an expired entry for the address: the lookup
  removes it, so the call does change the cache.
\<close>

theorem expired_entry_removed_on_empty_listing:
  "isValidSolanaAddress (run_env True (provider (Inr []) []) 60001) ''Q'' \<and>
   getSignaturesForAddress (provider (Inr []) []) ''Q'' 50 = Inr [] \<and>
   analyzeAddress (run_env True (provider (Inr []) []) 60001)
     [(''analysis:Q'',
       \<lparr>data = \<lparr>address = ''Q'', isValid = True, relatedAccounts = [],
                 error = Some ''Failed to analyze address: 429 Too Many Requests''\<rparr>,
        timestamp = 0, ttl = 60000\<rparr>)] ''Q'' =
     (\<lparr>address = ''Q'', isValid = True, relatedAccounts = [], error = None\<rparr>, [],
      [GetSignaturesForAddress ''Q'' 50]) \<and>
   [(''analysis:Q'',
       \<lparr>data = \<lparr>address = ''Q'', isValid = True, relatedAccounts = [],
                 error = Some ''Failed to analyze address: 429 Too Many Requests''\<rparr>,
        timestamp = 0, ttl = 60000\<rparr>)] \<noteq> ([] :: cache)"
  by (simp add: run_simps)


section \<open>Repeated calls\<close>





section \<open>Ranking\<close>

lemma set_insert_by: "set (insert_by cmp a xs) = insert a (set xs)"
  by (induction xs) auto

lemma length_insert_by: "length (insert_by cmp a xs) = Suc (length xs)"
  by (induction xs) auto

lemma length_array_sort: "length (array_sort cmp xs) = length xs"
  by (induction xs) (simp_all add: array_sort_def length_insert_by)

lemma sorted_insert_by:
  assumes tot: "\<And>x y. cmp x y \<le> 0 \<or> cmp y x \<le> 0"
    and tr: "\<And>x y z. cmp x y \<le> 0 \<Longrightarrow> cmp y z \<le> 0 \<Longrightarrow> cmp x z \<le> 0"
  shows "sorted_wrt (\<lambda>x y. cmp x y \<le> 0) xs \<Longrightarrow>
         sorted_wrt (\<lambda>x y. cmp x y \<le> 0) (insert_by cmp a xs)"
proof (induction xs)
  case Nil
  show ?case by simp
next
  case (Cons b bs)
  show ?case
  proof (cases "cmp a b \<le> 0")
    case True
    have "cmp a y \<le> 0" if "y \<in> set bs" for y
      using Cons.prems that tr [OF True] by auto
    then show ?thesis using True Cons.prems by auto
  next
    case False
    then have "cmp b a \<le> 0" using tot [of a b] by simp
    then show ?thesis
      using False Cons by (auto simp: set_insert_by)
  qed
qed

lemma sorted_array_sort:
  assumes tot: "\<And>x y. cmp x y \<le> 0 \<or> cmp y x \<le> 0"
    and tr: "\<And>x y z. cmp x y \<le> 0 \<Longrightarrow> cmp y z \<le> 0 \<Longrightarrow> cmp x z \<le> 0"
  shows "sorted_wrt (\<lambda>x y. cmp x y \<le> 0) (array_sort cmp xs)"
proof (induction xs)
  case Nil
  show ?case by (simp add: array_sort_def)
next
  case (Cons x xs)
  have "array_sort cmp (x # xs) = insert_by cmp x (array_sort cmp xs)"
    by (simp add: array_sort_def)
  then show ?case
    using sorted_insert_by [of cmp, OF tot tr Cons.IH] by simp
qed

lemma byVolume_le:
  "byVolume x y \<le> 0 \<longleftrightarrow>
     volumeValue x > volumeValue y \<or>
     (volumeValue x = volumeValue y \<and> interactions x \<ge> interactions y)"
  by (auto simp: byVolume_def)

lemma byCount_v1_le:
  "byCount_v1 x y \<le> 0 \<longleftrightarrow>
     transactionCount x > transactionCount y \<or>
     (transactionCount x = transactionCount y \<and>
      (case totalSolFlowLamports x of None \<Rightarrow> 0 | Some v \<Rightarrow> v) \<ge>
      (case totalSolFlowLamports y of None \<Rightarrow> 0 | Some v \<Rightarrow> v))"
  by (auto simp: byCount_v1_def)

lemma sorted_rankAccounts:
  "sorted_wrt (\<lambda>x y. volumeValue x > volumeValue y \<or>
                  (volumeValue x = volumeValue y \<and> interactions x \<ge> interactions y))
     (rankAccounts st)"
proof -
  have "sorted_wrt (\<lambda>x y. byVolume x y \<le> 0) (array_sort byVolume xs)" for xs
    by (rule sorted_array_sort) (auto simp: byVolume_le)
  then show ?thesis
    by (simp add: rankAccounts_def Let_def byVolume_le)
qed

lemma sorted_rankAccounts_v1:
  "sorted_wrt (\<lambda>x y. transactionCount x > transactionCount y \<or>
                  (transactionCount x = transactionCount y \<and>
                   (case totalSolFlowLamports x of None \<Rightarrow> 0 | Some v \<Rightarrow> v) \<ge>
                   (case totalSolFlowLamports y of None \<Rightarrow> 0 | Some v \<Rightarrow> v)))
     (rankAccounts_v1 m)"
proof -
  have "sorted_wrt (\<lambda>x y. byCount_v1 x y \<le> 0) (array_sort byCount_v1 xs)" for xs
    by (rule sorted_array_sort) (auto simp: byCount_v1_le)
  then have "sorted_wrt (\<lambda>x y. byCount_v1 x y \<le> 0) (take 25 (array_sort byCount_v1 xs))" for xs
    by (rule sorted_wrt_take)
  then show ?thesis
    by (simp add: rankAccounts_v1_def byCount_v1_le)
qed

lemma length_rankAccounts:
  "length (rankAccounts st) =
     card (fst ` set (accountInteractions st) \<union> fst ` set (accountVolumes st))"
proof -
  have "length (set_of_array xs) = card (set xs)" for xs :: "string list"
    by (simp add: set_of_array_def length_remdups_card_conv)
  then show ?thesis
    by (simp add: rankAccounts_def Let_def length_array_sort)
qed

lemma length_rankAccounts_v1: "length (rankAccounts_v1 m) = min 25 (length m)"
  by (simp add: rankAccounts_v1_def length_array_sort min.commute)

lemma rankAccounts_empty: "rankAccounts \<lparr>accountVolumes = [], accountInteractions = []\<rparr> = []"
  by (simp add: rankAccounts_def set_of_array_def array_sort_def)

lemma aggregate_no_signatures:
  "fst (aggregate e a) = Inr ([], st) \<Longrightarrow> st = \<lparr>accountVolumes = [], accountInteractions = []\<rparr>"
  by (auto simp: aggregate_def Let_def split: sum.splits if_splits)

lemma analyzeAddress_ranked:
  assumes "isValidSolanaAddress e a" "fst (getCachedAnalysis c a (now_lookup e)) = None"
    "fst (aggregate e a) = Inr (sigs, st)"
  shows "fst (analyzeAddress e c a) =
           \<lparr>address = a, isValid = True, relatedAccounts = map stripRanked (rankAccounts st),
            error = None\<rparr>"
proof -
  obtain c1 where look: "getCachedAnalysis c a (now_lookup e) = (None, c1)"
    using assms(2) by (cases "getCachedAnalysis c a (now_lookup e)") simp
  obtain ks where agg: "aggregate e a = (Inr (sigs, st), ks)"
    using assms(3) by (cases "aggregate e a") simp
  show ?thesis
  proof (cases "sigs = []")
    case True
    then have "st = \<lparr>accountVolumes = [], accountInteractions = []\<rparr>"
      using assms(3) aggregate_no_signatures by blast
    then show ?thesis
      using True assms(1) by (simp add: analyzeAddress_def look agg rankAccounts_empty)
  next
    case False
    then show ?thesis
      using assms(1) by (simp add: analyzeAddress_def look agg Let_def)
  qed
qed

lemma mset_insert_by: "mset (insert_by cmp a xs) = add_mset a (mset xs)"
  by (induction xs) auto

lemma mset_array_sort: "mset (array_sort cmp xs) = mset xs"
  by (induction xs) (simp_all add: array_sort_def mset_insert_by)

lemma set_array_sort: "set (array_sort cmp xs) = set xs"
  using mset_array_sort [of cmp xs] by (metis set_mset_mset)

lemma set_set_of_array: "set (set_of_array xs) = set xs"
  by (simp add: set_of_array_def)

lemma distinct_set_of_array: "distinct (set_of_array xs)"
  by (simp add: set_of_array_def)

lemma rankAccounts_entry:
  assumes "r \<in> set (rankAccounts st)"
  shows "volumeValue r = get_or_0 (accountVolumes st) (rk_address r) \<and>
         interactions r = get_or_0 (accountInteractions st) (rk_address r) \<and>
         rk_totalSolVolume r = formatSolAmount (get_or_0 (accountVolumes st) (rk_address r))"
  using assms by (auto simp: rankAccounts_def Let_def set_array_sort)

lemma rankAccounts_addresses:
  "mset (map rk_address (rankAccounts st)) =
     mset (set_of_array (map fst (accountInteractions st) @ map fst (accountVolumes st)))"
proof -
  have "mset (map rk_address (array_sort byVolume xs)) = mset (map rk_address xs)" for xs
    using mset_array_sort [of byVolume xs] by (metis mset_map)
  then show ?thesis
    by (simp add: rankAccounts_def Let_def multiset.map_comp comp_def)
qed

lemma distinct_rankAccounts: "distinct (map rk_address (rankAccounts st))"
  using rankAccounts_addresses [of st] distinct_set_of_array mset_eq_imp_distinct_iff by blast

lemma set_rankAccounts:
  "set (map rk_address (rankAccounts st)) =
     fst ` set (accountInteractions st) \<union> fst ` set (accountVolumes st)"
proof -
  have "set (map rk_address (rankAccounts st)) =
          set (set_of_array (map fst (accountInteractions st) @ map fst (accountVolumes st)))"
    using rankAccounts_addresses [of st] by (rule mset_eq_setD)
  then show ?thesis by (simp add: set_set_of_array)
qed

lemma stripRanked_fields:
  "map stripRanked rs =
     map (\<lambda>r. \<lparr>ra_address = rk_address r, totalSolVolume = rk_totalSolVolume r\<rparr>) rs"
  by (simp add: stripRanked_def)

lemma rankAccounts_v1_prefix:
  "\<exists>full. mset full = mset (map snd m) \<and>
          sorted_wrt (\<lambda>x y. transactionCount x > transactionCount y \<or>
                  (transactionCount x = transactionCount y \<and>
                   (case totalSolFlowLamports x of None \<Rightarrow> 0 | Some v \<Rightarrow> v) \<ge>
                   (case totalSolFlowLamports y of None \<Rightarrow> 0 | Some v \<Rightarrow> v))) full \<and>
          rankAccounts_v1 m = take 25 full"
proof -
  have "sorted_wrt (\<lambda>x y. byCount_v1 x y \<le> 0) (array_sort byCount_v1 (map snd m))"
    by (rule sorted_array_sort) (auto simp: byCount_v1_le)
  then show ?thesis
    using mset_array_sort [of byCount_v1 "map snd m"]
    by (auto simp: rankAccounts_v1_def byCount_v1_le)
qed

lemma collect_v1_no_signatures: "relatedAccountsMap (collect_v1 conn url a []) = []"
  by (simp add: collect_v1_def Let_def batchLoop_v1.simps)

lemma rankAccounts_v1_empty: "rankAccounts_v1 [] = []"
  by (simp add: rankAccounts_v1_def array_sort_def)

lemma analyzeAddress_v1_ranked:
  assumes "isValidSolanaAddress e a" "connect_v1 e a = Inr (url, conn)"
    "getSignaturesForAddress conn a 50 = Inr sigs"
  shows "relatedAccounts_v1 (analyzeAddress_v1 e a) =
           Some (map cleanAccount (rankAccounts_v1 (relatedAccountsMap (collect_v1 conn url a sigs))))"
proof (cases "sigs = []")
  case True
  then show ?thesis
    using assms
    by (simp add: analyzeAddress_v1_def analysis_v1_def Let_def collect_v1_no_signatures
        rankAccounts_v1_empty)
next
  case False
  then show ?thesis
    using assms by (simp add: analyzeAddress_v1_def analysis_v1_def Let_def)
qed

lemma cleanAccount_fields:
  "address_v1 (cleanAccount r) = address_v1 r \<and>
   transactionCount (cleanAccount r) = transactionCount r \<and>
   lastInteraction (cleanAccount r) = lastInteraction r \<and>
   transactionTypes (cleanAccount r) = transactionTypes r \<and>
   totalTokenInteractions (cleanAccount r) = totalTokenInteractions r \<and>
   totalSolFlowLamports (cleanAccount r) = None \<and>
   totalSolFlow (cleanAccount r) =
     Some (formatSolAmount_v1
             (real_of_int (case totalSolFlowLamports r of None \<Rightarrow> 0 | Some v \<Rightarrow> v)))"
  by (simp add: cleanAccount_def)

lemmas loop_v1_simps = provider_def transfer_tx_def
  batchLoop_v1.simps nativePass_v1_def nativeStep_v1_def skipAccount_v1_def
  nth_or_0_def freshAccount_def stampOf_def updateLastInteraction_def addType_def
  recordBatchError_def map_get_def Let_def

lemma provider_sel:
  "getBalance (provider l t) = (\<lambda>a. Inr 0)"
  "getSignaturesForAddress (provider l t) = (\<lambda>a limit. l)"
  by (simp_all add: provider_def)

text \<open>
  C3 (amended). The cached route returns every account of the two maps exactly once, with
  no cut at 25: each entry carries the volume and the interaction count the run has
  accumulated for its address and the formatted volume, and the entries are in descending
  order of volume, with descending interaction count as tie-break. On a valid address that
  the cache does not serve, \<open>relatedAccounts\<close> is this ranking of the run's maps, reduced
  to address and formatted volume. The earlier route sorts the entries of the run's map by
  descending transaction count, with descending lamport flow as tie-break, and keeps the
  first 25; its \<open>relatedAccounts\<close> is this ranking of the map the run has collected,
  each entry with its lamport flow replaced by the formatted amount and its other fields
  kept.
\<close>

theorem ranking_order:
  "distinct (map rk_address (rankAccounts st)) \<and>
   set (map rk_address (rankAccounts st)) =
     fst ` set (accountInteractions st) \<union> fst ` set (accountVolumes st) \<and>
   length (rankAccounts st) =
     card (fst ` set (accountInteractions st) \<union> fst ` set (accountVolumes st)) \<and>
   (\<forall>r \<in> set (rankAccounts st).
      volumeValue r = get_or_0 (accountVolumes st) (rk_address r) \<and>
      interactions r = get_or_0 (accountInteractions st) (rk_address r) \<and>
      rk_totalSolVolume r = formatSolAmount (get_or_0 (accountVolumes st) (rk_address r))) \<and>
   sorted_wrt (\<lambda>x y. volumeValue x > volumeValue y \<or>
                  (volumeValue x = volumeValue y \<and> interactions x \<ge> interactions y))
     (rankAccounts st) \<and>
   (isValidSolanaAddress e a \<and> fst (getCachedAnalysis c a (now_lookup e)) = None \<and>
    fst (aggregate e a) = Inr (sigs, st) \<longrightarrow>
      fst (analyzeAddress e c a) =
        \<lparr>address = a, isValid = True,
         relatedAccounts =
           map (\<lambda>r. \<lparr>ra_address = rk_address r, totalSolVolume = rk_totalSolVolume r\<rparr>)
             (rankAccounts st),
         error = None\<rparr>) \<and>
   (\<exists>full. mset full = mset (map snd m) \<and>
           sorted_wrt (\<lambda>x y. transactionCount x > transactionCount y \<or>
                  (transactionCount x = transactionCount y \<and>
                   (case totalSolFlowLamports x of None \<Rightarrow> 0 | Some v \<Rightarrow> v) \<ge>
                   (case totalSolFlowLamports y of None \<Rightarrow> 0 | Some v \<Rightarrow> v))) full \<and>
           rankAccounts_v1 m = take 25 full) \<and>
   sorted_wrt (\<lambda>x y. transactionCount x > transactionCount y \<or>
                  (transactionCount x = transactionCount y \<and>
                   (case totalSolFlowLamports x of None \<Rightarrow> 0 | Some v \<Rightarrow> v) \<ge>
                   (case totalSolFlowLamports y of None \<Rightarrow> 0 | Some v \<Rightarrow> v)))
     (rankAccounts_v1 m) \<and>
   length (rankAccounts_v1 m) = min 25 (length m) \<and>
   (isValidSolanaAddress e a \<and> connect_v1 e a = Inr (url, conn) \<and>
    getSignaturesForAddress conn a 50 = Inr sigs1 \<longrightarrow>
      relatedAccounts_v1 (analyzeAddress_v1 e a) =
        Some (map cleanAccount
                (rankAccounts_v1 (relatedAccountsMap (collect_v1 conn url a sigs1))))) \<and>
   (isValidSolanaAddress e a \<and> analysis_v1 e a = Inr resp \<longrightarrow> analyzeAddress_v1 e a = resp) \<and>
   address_v1 (cleanAccount r1) = address_v1 r1 \<and>
   transactionCount (cleanAccount r1) = transactionCount r1 \<and>
   lastInteraction (cleanAccount r1) = lastInteraction r1 \<and>
   transactionTypes (cleanAccount r1) = transactionTypes r1 \<and>
   totalTokenInteractions (cleanAccount r1) = totalTokenInteractions r1 \<and>
   totalSolFlowLamports (cleanAccount r1) = None \<and>
   totalSolFlow (cleanAccount r1) =
     Some (formatSolAmount_v1
             (real_of_int (case totalSolFlowLamports r1 of None \<Rightarrow> 0 | Some v \<Rightarrow> v)))"
proof -
  have link: "isValidSolanaAddress e a \<and> fst (getCachedAnalysis c a (now_lookup e)) = None \<and>
    fst (aggregate e a) = Inr (sigs, st) \<longrightarrow>
      fst (analyzeAddress e c a) =
        \<lparr>address = a, isValid = True,
         relatedAccounts =
           map (\<lambda>r. \<lparr>ra_address = rk_address r, totalSolVolume = rk_totalSolVolume r\<rparr>)
             (rankAccounts st),
         error = None\<rparr>"
    using analyzeAddress_ranked [of e a c sigs st] by (simp add: stripRanked_fields)
  have link1: "isValidSolanaAddress e a \<and> connect_v1 e a = Inr (url, conn) \<and>
    getSignaturesForAddress conn a 50 = Inr sigs1 \<longrightarrow>
      relatedAccounts_v1 (analyzeAddress_v1 e a) =
        Some (map cleanAccount
                (rankAccounts_v1 (relatedAccountsMap (collect_v1 conn url a sigs1))))"
    using analyzeAddress_v1_ranked [of e a url conn sigs1] by blast
  have same: "isValidSolanaAddress e a \<and> analysis_v1 e a = Inr resp \<longrightarrow>
    analyzeAddress_v1 e a = resp"
    by (simp add: analyzeAddress_v1_def)
  have entries: "\<forall>r \<in> set (rankAccounts st).
      volumeValue r = get_or_0 (accountVolumes st) (rk_address r) \<and>
      interactions r = get_or_0 (accountInteractions st) (rk_address r) \<and>
      rk_totalSolVolume r = formatSolAmount (get_or_0 (accountVolumes st) (rk_address r))"
    using rankAccounts_entry by blast
  show ?thesis
    using distinct_rankAccounts [of st] set_rankAccounts [of st] length_rankAccounts [of st]
      entries sorted_rankAccounts [of st] link rankAccounts_v1_prefix [of m]
      sorted_rankAccounts_v1 [of m] length_rankAccounts_v1 [of m] link1 same
    by (intro conjI) (assumption | simp add: cleanAccount_def)+
qed

theorem ranking_order_witness:
  "isValidSolanaAddress
     (run_env True (provider (Inr [\<lparr>signature = ''s1'', blockTime = Some 1700000000\<rparr>])
        [Some (transfer_tx [''Q'', ''X'', ''Y'', ''Z''] [10000000000, 0, 0, 1]
                 [4999995000, 2000000000, 3000000000, 1])]) 0) ''Q'' \<and>
   fst (aggregate
     (run_env True (provider (Inr [\<lparr>signature = ''s1'', blockTime = Some 1700000000\<rparr>])
        [Some (transfer_tx [''Q'', ''X'', ''Y'', ''Z''] [10000000000, 0, 0, 1]
                 [4999995000, 2000000000, 3000000000, 1])]) 0) ''Q'') =
     Inr ([\<lparr>signature = ''s1'', blockTime = Some 1700000000\<rparr>],
          \<lparr>accountVolumes = [(''X'', 2), (''Y'', 3)],
           accountInteractions = [(''X'', 1), (''Y'', 1), (''Z'', 1)]\<rparr>) \<and>
   fst (analyzeAddress
     (run_env True (provider (Inr [\<lparr>signature = ''s1'', blockTime = Some 1700000000\<rparr>])
        [Some (transfer_tx [''Q'', ''X'', ''Y'', ''Z''] [10000000000, 0, 0, 1]
                 [4999995000, 2000000000, 3000000000, 1])]) 0) [] ''Q'') =
     \<lparr>address = ''Q'', isValid = True,
      relatedAccounts =
        [\<lparr>ra_address = ''Y'', totalSolVolume = ''3.00 SOL''\<rparr>,
         \<lparr>ra_address = ''X'', totalSolVolume = ''2.00 SOL''\<rparr>,
         \<lparr>ra_address = ''Z'', totalSolVolume = ''0 SOL''\<rparr>],
      error = None\<rparr> \<and>
   relatedAccounts_v1 (analyzeAddress_v1
     (run_env True (provider (Inr [\<lparr>signature = ''s1'', blockTime = Some 1700000000\<rparr>])
        [Some (transfer_tx [''Q'', ''X'', ''Y'', ''Z''] [10000000000, 0, 0, 1]
                 [4999995000, 2000000000, 3000000000, 1])]) 0) ''Q'') =
     Some [\<lparr>address_v1 = ''Y'', transactionCount = 1, lastInteraction = ISO 1700000000,
            transactionTypes = [''SOL Inflow''], totalSolFlowLamports = None,
            totalSolFlow = Some ''3.00 SOL'', totalTokenInteractions = Some 0\<rparr>,
           \<lparr>address_v1 = ''X'', transactionCount = 1, lastInteraction = ISO 1700000000,
            transactionTypes = [''SOL Inflow''], totalSolFlowLamports = None,
            totalSolFlow = Some ''2.00 SOL'', totalTokenInteractions = Some 0\<rparr>]"
proof -
  let ?sigs = "[\<lparr>signature = ''s1'', blockTime = Some 1700000000\<rparr>]"
  let ?conn = "provider (Inr ?sigs)
        [Some (transfer_tx [''Q'', ''X'', ''Y'', ''Z''] [10000000000, 0, 0, 1]
                 [4999995000, 2000000000, 3000000000, 1])]"
  let ?e = "run_env True ?conn 0"
  let ?url = "''https://rpc.ankr.com/solana''"
  let ?st = "\<lparr>accountVolumes = [(''X'', 2), (''Y'', 3)],
           accountInteractions = [(''X'', 1), (''Y'', 1), (''Z'', 1)]\<rparr>"
  let ?m = "[(''X'', \<lparr>address_v1 = ''X'', transactionCount = 1, lastInteraction = ISO 1700000000,
                  transactionTypes = [''SOL Inflow''], totalSolFlowLamports = Some 2000000000,
                  totalSolFlow = Some ''0 SOL'', totalTokenInteractions = Some 0\<rparr>),
          (''Y'', \<lparr>address_v1 = ''Y'', transactionCount = 1, lastInteraction = ISO 1700000000,
                  transactionTypes = [''SOL Inflow''], totalSolFlowLamports = Some 3000000000,
                  totalSolFlow = Some ''0 SOL'', totalTokenInteractions = Some 0\<rparr>)]"
  have v: "isValidSolanaAddress ?e ''Q''"
    by (simp add: run_env_def)
  have m: "fst (getCachedAnalysis [] ''Q'' (now_lookup ?e)) = None"
    by (simp add: getCachedAnalysis_def map_get_def)
  have agg: "fst (aggregate ?e ''Q'') = Inr (?sigs, ?st)"
    by (simp add: run_simps Let_def)
  have rk: "map (\<lambda>r. \<lparr>ra_address = rk_address r, totalSolVolume = rk_totalSolVolume r\<rparr>)
              (rankAccounts ?st) =
        [\<lparr>ra_address = ''Y'', totalSolVolume = ''3.00 SOL''\<rparr>,
         \<lparr>ra_address = ''X'', totalSolVolume = ''2.00 SOL''\<rparr>,
         \<lparr>ra_address = ''Z'', totalSolVolume = ''0 SOL''\<rparr>]"
    by (simp add: rankAccounts_def set_of_array_def array_sort_def byVolume_def get_or_0_def
        map_get_def formatSolAmount_def render_simps)
  have cn: "connect_v1 ?e ''Q'' = Inr (?url, ?conn)"
    by (simp add: connect_v1_def run_env_def rpcUrl_of_def FALLBACK_RPCS_def provider_sel)
  have sg: "getSignaturesForAddress ?conn ''Q'' 50 = Inr ?sigs"
    by (simp add: provider_sel)
  have col: "relatedAccountsMap (collect_v1 ?conn ?url ''Q'' ?sigs) = ?m"
    by (simp add: collect_v1_def loop_v1_simps)
  have rk1: "map cleanAccount (rankAccounts_v1 ?m) =
          [\<lparr>address_v1 = ''Y'', transactionCount = 1, lastInteraction = ISO 1700000000,
            transactionTypes = [''SOL Inflow''], totalSolFlowLamports = None,
            totalSolFlow = Some ''3.00 SOL'', totalTokenInteractions = Some 0\<rparr>,
           \<lparr>address_v1 = ''X'', transactionCount = 1, lastInteraction = ISO 1700000000,
            transactionTypes = [''SOL Inflow''], totalSolFlowLamports = None,
            totalSolFlow = Some ''2.00 SOL'', totalTokenInteractions = Some 0\<rparr>]"
    by (simp add: rankAccounts_v1_def byCount_v1_def cleanAccount_def formatSolAmount_v1_def
        array_sort_def render_simps)
  note T = ranking_order [where st = ?st and e = ?e and a = "''Q''" and c = "[]" and sigs = ?sigs
      and url = ?url and conn = ?conn and ?sigs1.0 = ?sigs]
  have "fst (analyzeAddress ?e [] ''Q'') =
          \<lparr>address = ''Q'', isValid = True,
           relatedAccounts =
             map (\<lambda>r. \<lparr>ra_address = rk_address r, totalSolVolume = rk_totalSolVolume r\<rparr>)
               (rankAccounts ?st),
           error = None\<rparr>"
    using T v m agg by blast
  then have a: "fst (analyzeAddress ?e [] ''Q'') =
     \<lparr>address = ''Q'', isValid = True,
      relatedAccounts =
        [\<lparr>ra_address = ''Y'', totalSolVolume = ''3.00 SOL''\<rparr>,
         \<lparr>ra_address = ''X'', totalSolVolume = ''2.00 SOL''\<rparr>,
         \<lparr>ra_address = ''Z'', totalSolVolume = ''0 SOL''\<rparr>],
      error = None\<rparr>"
    unfolding rk .
  have "relatedAccounts_v1 (analyzeAddress_v1 ?e ''Q'') =
          Some (map cleanAccount
                  (rankAccounts_v1 (relatedAccountsMap (collect_v1 ?conn ?url ''Q'' ?sigs))))"
    using T v cn sg by blast
  then have b: "relatedAccounts_v1 (analyzeAddress_v1 ?e ''Q'') =
     Some [\<lparr>address_v1 = ''Y'', transactionCount = 1, lastInteraction = ISO 1700000000,
            transactionTypes = [''SOL Inflow''], totalSolFlowLamports = None,
            totalSolFlow = Some ''3.00 SOL'', totalTokenInteractions = Some 0\<rparr>,
           \<lparr>address_v1 = ''X'', transactionCount = 1, lastInteraction = ISO 1700000000,
            transactionTypes = [''SOL Inflow''], totalSolFlowLamports = None,
            totalSolFlow = Some ''2.00 SOL'', totalTokenInteractions = Some 0\<rparr>]"
    unfolding col rk1 .
  show ?thesis using v agg a b by blast
qed

text \<open>
  C3 as stated fails on the cached route: one transaction with 26 account keys gives a
  \<open>relatedAccounts\<close> list of 26 entries.
\<close>

theorem cached_route_returns_26_accounts:
  "isValidSolanaAddress
     (run_env True (provider (Inr [\<lparr>signature = ''s1'', blockTime = None\<rparr>])
        [Some (transfer_tx
           [''a'', ''b'', ''c'', ''d'', ''e'', ''f'', ''g'', ''h'', ''i'', ''j'', ''k'', ''l'', ''m'',
            ''n'', ''o'', ''p'', ''q'', ''r'', ''s'', ''t'', ''u'', ''v'', ''w'', ''x'', ''y'', ''z'']
           [] [])]) 0) ''Q'' \<and>
   error (fst (analyzeAddress
     (run_env True (provider (Inr [\<lparr>signature = ''s1'', blockTime = None\<rparr>])
        [Some (transfer_tx
           [''a'', ''b'', ''c'', ''d'', ''e'', ''f'', ''g'', ''h'', ''i'', ''j'', ''k'', ''l'', ''m'',
            ''n'', ''o'', ''p'', ''q'', ''r'', ''s'', ''t'', ''u'', ''v'', ''w'', ''x'', ''y'', ''z'']
           [] [])]) 0) [] ''Q'')) = None \<and>
   length (relatedAccounts (fst (analyzeAddress
     (run_env True (provider (Inr [\<lparr>signature = ''s1'', blockTime = None\<rparr>])
        [Some (transfer_tx
           [''a'', ''b'', ''c'', ''d'', ''e'', ''f'', ''g'', ''h'', ''i'', ''j'', ''k'', ''l'', ''m'',
            ''n'', ''o'', ''p'', ''q'', ''r'', ''s'', ''t'', ''u'', ''v'', ''w'', ''x'', ''y'', ''z'']
           [] [])]) 0) [] ''Q''))) = 26"
  by (simp add: run_simps Let_def)


section \<open>The cache lookup\<close>

text \<open>
  C4. \<open>getCachedAnalysis\<close> never returns an expired entry. An entry of the address with
  \<open>now - timestamp > ttl\<close> is removed from the store and the lookup returns nothing; an
  entry that is not expired is returned as stored, and the store is left as it was; and
  whatever the lookup returns is the data of a stored entry that is not expired.
\<close>

theorem getCachedAnalysis_never_expired:
  "(\<forall>e. map_get c (getCacheKey a) = Some e \<and> now - timestamp e > ttl e \<longrightarrow>
        getCachedAnalysis c a now = (None, map_delete c (getCacheKey a)) \<and>
        map_get (snd (getCachedAnalysis c a now)) (getCacheKey a) = None) \<and>
   (\<forall>e. map_get c (getCacheKey a) = Some e \<and> \<not> now - timestamp e > ttl e \<longrightarrow>
        getCachedAnalysis c a now = (Some (data e), c)) \<and>
   (\<forall>r. fst (getCachedAnalysis c a now) = Some r \<longrightarrow>
        (\<exists>e. map_get c (getCacheKey a) = Some e \<and> r = data e \<and> now - timestamp e \<le> ttl e))"
  by (auto simp: getCachedAnalysis_def Let_def map_get_map_delete_same split: option.splits if_splits)

theorem getCachedAnalysis_never_expired_witness:
  "getCachedAnalysis
     [(''analysis:A'', \<lparr>data = \<lparr>address = ''A'', isValid = True, relatedAccounts = [], error = None\<rparr>,
                        timestamp = 0, ttl = 300000\<rparr>)] ''A'' 300001 = (None, []) \<and>
   getCachedAnalysis
     [(''analysis:A'', \<lparr>data = \<lparr>address = ''A'', isValid = True, relatedAccounts = [], error = None\<rparr>,
                        timestamp = 0, ttl = 300000\<rparr>)] ''A'' 300000 =
     (Some \<lparr>address = ''A'', isValid = True, relatedAccounts = [], error = None\<rparr>,
      [(''analysis:A'', \<lparr>data = \<lparr>address = ''A'', isValid = True, relatedAccounts = [], error = None\<rparr>,
                        timestamp = 0, ttl = 300000\<rparr>)])"
  using getCachedAnalysis_never_expired
      [of "[(''analysis:A'', \<lparr>data = \<lparr>address = ''A'', isValid = True, relatedAccounts = [], error = None\<rparr>,
                        timestamp = 0, ttl = 300000\<rparr>)]" "''A''" 300001]
    getCachedAnalysis_never_expired
      [of "[(''analysis:A'', \<lparr>data = \<lparr>address = ''A'', isValid = True, relatedAccounts = [], error = None\<rparr>,
                        timestamp = 0, ttl = 300000\<rparr>)]" "''A''" 300000]
  by (simp add: getCacheKey_def map_get_def map_delete_def)


section \<open>The token table\<close>


lemma table_rates_nonzero: "(mi, r) \<in> set TOKEN_TO_SOL_RATES \<Longrightarrow> r \<noteq> 0"
  by (auto simp: TOKEN_TO_SOL_RATES_def)





end
